theory Spec2Isabelle
  imports Main "HOL-Library.Word" "HOL-Library.AList"
begin

unbundle bit_operations_syntax

section \<open>Wire protocol codec (protocol/Protocol.h, protocol/Protocol.cpp)\<close>

text \<open>
  Bytes are \<open>uint8_t\<close>; \<open>float\<close> and \<open>double\<close> values only ever cross the codec through
  \<open>memcpy\<close> to and from an unsigned integer of the same width, so a float is modelled by
  its 32-bit pattern and a double by its 64-bit pattern. \<open>int32_t\<close> is a 32-bit word read
  in two's complement. \<open>size_t\<close> offsets are natural numbers (they are bounded by the
  buffer size, far below \<open>2^64\<close>).
\<close>

type_synonym u8 = "8 word"
type_synonym u32 = "32 word"
type_synonym i32 = "32 word"
type_synonym u64 = "64 word"
type_synonym f32 = "32 word"
type_synonym f64 = "64 word"

text \<open>\<open>enum class MessageType : uint8_t\<close>. \<open>decodeHeader\<close> casts any byte to the
  enumeration, so a message type is a byte and the enumerators are constants.\<close>

type_synonym MessageType = u8

definition CLIENT_INPUT :: MessageType where "CLIENT_INPUT = 0x01"
definition CLIENT_CONTROL :: MessageType where "CLIENT_CONTROL = 0x02"
definition SERVER_FRAME :: MessageType where "SERVER_FRAME = 0x10"
definition SERVER_STATE :: MessageType where "SERVER_STATE = 0x11"
definition SERVER_ERROR :: MessageType where "SERVER_ERROR = 0x12"

record ClientInputMessage =
  in_x :: f32
  in_y :: f32
  in_z :: f32
  in_value :: f32
  in_timestamp :: u32

text \<open>\<open>ClientControlMessage::Type\<close> has underlying type \<open>uint8_t\<close> and is produced by a
  cast of the received byte, with no validation.\<close>

definition PAUSE :: u8 where "PAUSE = 0x01"
definition RESUME :: u8 where "RESUME = 0x02"
definition RESET :: u8 where "RESET = 0x03"
definition SET_SPEED :: u8 where "SET_SPEED = 0x04"

record ClientControlMessage =
  ctl_type :: u8
  ctl_parameter :: f32

text \<open>A \<open>std::string\<close> is a sequence of \<open>char\<close>; the encoder inserts its characters into
  the byte vector and the decoder reinterprets bytes as characters.\<close>

definition byte_of_char :: "char \<Rightarrow> u8" where
  "byte_of_char c = of_nat (of_char c)"

definition char_of_byte :: "u8 \<Rightarrow> char" where
  "char_of_byte b = char_of (unat b)"

subsection \<open>ProtocolEncoder\<close>

text \<open>The encoder's state is its \<open>buffer_\<close>; every write appends to it.\<close>

definition push_back :: "u8 \<Rightarrow> u8 list \<Rightarrow> u8 list" where
  "push_back b buffer = buffer @ [b]"

definition writeHeader :: "MessageType \<Rightarrow> u8 list \<Rightarrow> u8 list" where
  "writeHeader t buffer = push_back t buffer"

definition writeUInt32 :: "u32 \<Rightarrow> u8 list \<Rightarrow> u8 list" where
  "writeUInt32 v buffer =
     push_back (ucast (drop_bit 24 v))
       (push_back (ucast (drop_bit 16 v))
         (push_back (ucast (drop_bit 8 v))
           (push_back (ucast v) buffer)))"

text \<open>\<open>value >> k\<close> on an \<open>int32_t\<close> is an arithmetic shift.\<close>

definition writeInt32 :: "i32 \<Rightarrow> u8 list \<Rightarrow> u8 list" where
  "writeInt32 v buffer =
     push_back (ucast (signed_drop_bit 24 v))
       (push_back (ucast (signed_drop_bit 16 v))
         (push_back (ucast (signed_drop_bit 8 v))
           (push_back (ucast v) buffer)))"

definition writeFloat :: "f32 \<Rightarrow> u8 list \<Rightarrow> u8 list" where
  "writeFloat bits buffer =
     push_back (ucast (drop_bit 24 bits))
       (push_back (ucast (drop_bit 16 bits))
         (push_back (ucast (drop_bit 8 bits))
           (push_back (ucast bits) buffer)))"

text \<open>\<open>for (int i = 0; i < 8; ++i) buffer_.push_back(uint8_t(bits >> (i * 8)))\<close>\<close>

fun writeDouble_loop :: "f64 \<Rightarrow> nat \<Rightarrow> nat \<Rightarrow> u8 list \<Rightarrow> u8 list" where
  "writeDouble_loop bits 0 i buffer = buffer"
| "writeDouble_loop bits (Suc n) i buffer =
     writeDouble_loop bits n (i + 1) (push_back (ucast (drop_bit (i * 8) bits)) buffer)"

definition writeDouble :: "f64 \<Rightarrow> u8 list \<Rightarrow> u8 list" where
  "writeDouble bits buffer = writeDouble_loop bits 8 0 buffer"

text \<open>\<open>static_cast<uint32_t>(str.length())\<close> keeps the length modulo \<open>2^32\<close>.\<close>

definition writeString :: "string \<Rightarrow> u8 list \<Rightarrow> u8 list" where
  "writeString str buffer =
     writeUInt32 (of_nat (length str)) buffer @ map byte_of_char str"

text \<open>Each \<open>encode\<close> function clears the buffer first, so the buffer it leaves does not
  depend on the buffer it finds.\<close>

definition clear :: "u8 list \<Rightarrow> u8 list" where
  "clear buffer = []"

definition encodeFrame :: "string \<Rightarrow> u8 list \<Rightarrow> f64 \<Rightarrow> u8 list \<Rightarrow> u8 list" where
  "encodeFrame sessionId textureData simulationTime buffer =
     writeUInt32 (of_nat (length textureData))
       (writeDouble simulationTime
         (writeString sessionId
           (writeHeader SERVER_FRAME (clear buffer)))) @ textureData"

definition encodeState :: "string \<Rightarrow> f32 \<Rightarrow> i32 \<Rightarrow> i32 \<Rightarrow> i32 \<Rightarrow> u8 list \<Rightarrow> u8 list" where
  "encodeState sessionId time w h d buffer =
     writeInt32 d
       (writeInt32 h
         (writeInt32 w
           (writeFloat time
             (writeString sessionId
               (writeHeader SERVER_STATE (clear buffer))))))"

definition encodeError :: "string \<Rightarrow> string \<Rightarrow> u8 list \<Rightarrow> u8 list" where
  "encodeError sessionId err buffer =
     writeString err
       (writeString sessionId
         (writeHeader SERVER_ERROR (clear buffer)))"

subsection \<open>ProtocolDecoder\<close>

text \<open>
  The decoder holds the input bytes (\<open>data_\<close>, of which \<open>size_\<close> are valid) and a cursor
  \<open>offset_\<close>. Each \<open>throw std::runtime_error(...)\<close> of the source is one constructor of
  \<open>decode_error\<close>; \<open>what\<close> gives its message. \<open>OutOfBoundsRead\<close> is not an exception: it
  is the value the model gives to a read of \<open>data_[i]\<close> with \<open>i \<ge> size_\<close>, which in the
  source would be undefined behaviour.
\<close>

datatype decode_error =
    NotEnoughData
  | StringExceedsBuffer
  | NotEnoughFloat
  | NotEnoughDouble
  | NotEnoughInt32
  | NotEnoughUInt32
  | NotEnoughControl
  | OutOfBoundsRead

fun what :: "decode_error \<Rightarrow> string option" where
  "what NotEnoughData = Some ''Invalid message: not enough data''"
| "what StringExceedsBuffer = Some ''Invalid message: string length exceeds buffer''"
| "what NotEnoughFloat = Some ''Invalid message: not enough data for float''"
| "what NotEnoughDouble = Some ''Invalid message: not enough data for double''"
| "what NotEnoughInt32 = Some ''Invalid message: not enough data for int32''"
| "what NotEnoughUInt32 = Some ''Invalid message: not enough data for uint32''"
| "what NotEnoughControl = Some ''Invalid message: not enough data for control''"
| "what OutOfBoundsRead = None"

record decoder =
  dec_data :: "u8 list"
  dec_offset :: nat

definition ProtocolDecoder :: "u8 list \<Rightarrow> decoder" where
  "ProtocolDecoder bytes = \<lparr>dec_data = bytes, dec_offset = 0\<rparr>"

definition dec_size :: "decoder \<Rightarrow> nat" where
  "dec_size d = length (dec_data d)"

definition and_then :: "'e + 'a \<Rightarrow> ('a \<Rightarrow> 'e + 'b) \<Rightarrow> 'e + 'b" where
  "and_then r f = (case r of Inl e \<Rightarrow> Inl e | Inr v \<Rightarrow> f v)"

definition byte_at :: "decoder \<Rightarrow> nat \<Rightarrow> decode_error + u8" where
  "byte_at d i = (if i < dec_size d then Inr (dec_data d ! i) else Inl OutOfBoundsRead)"

definition advance :: "nat \<Rightarrow> decoder \<Rightarrow> decoder" where
  "advance n d = d\<lparr>dec_offset := dec_offset d + n\<rparr>"

definition decodeHeader :: "decoder \<Rightarrow> decode_error + (MessageType \<times> decoder)" where
  "decodeHeader d =
     (if dec_offset d \<ge> dec_size d then Inl NotEnoughData
      else and_then (byte_at d (dec_offset d)) (\<lambda>b. Inr (b, advance 1 d)))"

text \<open>The four reads of a little-endian 32-bit value, shared in shape by \<open>readFloat\<close>,
  \<open>readInt32\<close> and \<open>readUInt32\<close>: each byte is widened to 32 bits, shifted and or-ed.\<close>

definition read_le32 :: "decoder \<Rightarrow> decode_error + 32 word" where
  "read_le32 d =
     and_then (byte_at d (dec_offset d)) (\<lambda>b0.
     and_then (byte_at d (dec_offset d + 1)) (\<lambda>b1.
     and_then (byte_at d (dec_offset d + 2)) (\<lambda>b2.
     and_then (byte_at d (dec_offset d + 3)) (\<lambda>b3.
       Inr (ucast b0 OR push_bit 8 (ucast b1) OR push_bit 16 (ucast b2)
              OR push_bit 24 (ucast b3))))))"

definition readFloat :: "decoder \<Rightarrow> decode_error + (f32 \<times> decoder)" where
  "readFloat d =
     (if dec_offset d + 4 > dec_size d then Inl NotEnoughFloat
      else and_then (read_le32 d) (\<lambda>bits. Inr (bits, advance 4 d)))"

definition readInt32 :: "decoder \<Rightarrow> decode_error + (i32 \<times> decoder)" where
  "readInt32 d =
     (if dec_offset d + 4 > dec_size d then Inl NotEnoughInt32
      else and_then (read_le32 d) (\<lambda>v. Inr (v, advance 4 d)))"

definition readUInt32 :: "decoder \<Rightarrow> decode_error + (u32 \<times> decoder)" where
  "readUInt32 d =
     (if dec_offset d + 4 > dec_size d then Inl NotEnoughUInt32
      else and_then (read_le32 d) (\<lambda>v. Inr (v, advance 4 d)))"

text \<open>\<open>for (int i = 0; i < 8; ++i) bits |= uint64_t(data_[offset_ + i]) << (i * 8)\<close>\<close>

fun readDouble_loop :: "decoder \<Rightarrow> nat \<Rightarrow> nat \<Rightarrow> u64 \<Rightarrow> decode_error + u64" where
  "readDouble_loop d 0 i bits = Inr bits"
| "readDouble_loop d (Suc n) i bits =
     and_then (byte_at d (dec_offset d + i)) (\<lambda>b.
       readDouble_loop d n (i + 1) (bits OR push_bit (i * 8) (ucast b)))"

definition readDouble :: "decoder \<Rightarrow> decode_error + (f64 \<times> decoder)" where
  "readDouble d =
     (if dec_offset d + 8 > dec_size d then Inl NotEnoughDouble
      else and_then (readDouble_loop d 8 0 0) (\<lambda>bits. Inr (bits, advance 8 d)))"

text \<open>\<open>std::string result(data_ + offset_, len)\<close> copies \<open>len\<close> bytes starting at the
  cursor; the preceding check makes all of them lie inside the buffer.\<close>

definition readString :: "decoder \<Rightarrow> decode_error + (string \<times> decoder)" where
  "readString d =
     and_then (readUInt32 d) (\<lambda>(len, d1).
       if dec_offset d1 + unat len > dec_size d1 then Inl StringExceedsBuffer
       else Inr (map char_of_byte (take (unat len) (drop (dec_offset d1) (dec_data d1))),
                 advance (unat len) d1))"

definition decodeClientInput :: "decoder \<Rightarrow> decode_error + (ClientInputMessage \<times> decoder)" where
  "decodeClientInput d =
     and_then (readFloat d) (\<lambda>(x, d1).
     and_then (readFloat d1) (\<lambda>(y, d2).
     and_then (readFloat d2) (\<lambda>(z, d3).
     and_then (readFloat d3) (\<lambda>(v, d4).
     and_then (readUInt32 d4) (\<lambda>(ts, d5).
       Inr (\<lparr>in_x = x, in_y = y, in_z = z, in_value = v, in_timestamp = ts\<rparr>, d5))))))"

definition decodeClientControl :: "decoder \<Rightarrow> decode_error + (ClientControlMessage \<times> decoder)" where
  "decodeClientControl d =
     (if dec_offset d \<ge> dec_size d then Inl NotEnoughControl
      else and_then (byte_at d (dec_offset d)) (\<lambda>t.
           and_then (readFloat (advance 1 d)) (\<lambda>(p, d2).
             Inr (\<lparr>ctl_type = t, ctl_parameter = p\<rparr>, d2))))"

text \<open>
  The decoding half of \<open>Server::handleWebSocket\<close> (server/Server.cpp): construct a
  decoder on the received bytes, read the header and switch on it. Only the two client
  message types have a case; every other tag reaches \<open>default:\<close>, which logs
  "Unknown message type" and decodes nothing. An exception leaves through the
  \<open>catch\<close>, which logs it.
\<close>

datatype decoded =
    DecodedInput ClientInputMessage
  | DecodedControl ClientControlMessage
  | UnknownMessageType MessageType

definition decodeMessage :: "u8 list \<Rightarrow> decode_error + decoded" where
  "decodeMessage message =
     and_then (decodeHeader (ProtocolDecoder message)) (\<lambda>(msgType, d).
       if msgType = CLIENT_INPUT then
         and_then (decodeClientInput d) (\<lambda>(input, d'). Inr (DecodedInput input))
       else if msgType = CLIENT_CONTROL then
         and_then (decodeClientControl d) (\<lambda>(control, d'). Inr (DecodedControl control))
       else Inr (UnknownMessageType msgType))"

section \<open>Field solver as the session sees it (simulation/FDTD3D.cpp, gpu/VulkanManager.cpp)\<close>

text \<open>
  A device buffer is the memory behind one of the solver's \<open>void *\<close> pointers, read as
  floats: its content at each float index. \<open>allocateBuffer\<close> is \<open>malloc\<close>, so the
  content of a fresh buffer is whatever the allocator returns; it is a parameter of the
  model. Every compute dispatch of \<open>VulkanManager\<close> (\<open>injectSource\<close>, \<open>decaySource\<close>,
  \<open>updateElectricField\<close>, \<open>updateMagneticField\<close>, \<open>drawEllipse\<close>) is a stub that only
  logs, so \<open>step\<close> and \<open>addSource\<close> change the buffers through \<open>swapBuffers\<close> alone.

  \<open>time_\<close> is a \<open>double\<close> that starts at \<open>0.0\<close> and grows by \<open>dt_\<close> in each \<open>step\<close>; the
  model keeps the number of these additions in \<open>time_steps\<close>. Grid dimensions are
  \<open>int\<close>, 32-bit words read in two's complement.
\<close>

type_synonym device_buffer = "nat \<Rightarrow> f32"

record FDTD3D =
  width :: i32
  height :: i32
  depth :: i32
  time_steps :: nat
  electricField_d :: device_buffer
  electricFieldNext_d :: device_buffer
  magneticField_d :: device_buffer
  magneticFieldNext_d :: device_buffer
  sourceField_d :: device_buffer
  sourceFieldNext_d :: device_buffer

text \<open>
  \<open>size_t size = width_ * height_ * depth_ * 3\<close>: the product is computed in \<open>int\<close> and
  then converted to \<open>size_t\<close>, which extends its sign to 64 bits. Where the product
  does not fit an \<open>int\<close> the source has undefined behaviour; the model takes the
  two's-complement result.
\<close>

definition texture_size :: "i32 \<Rightarrow> i32 \<Rightarrow> i32 \<Rightarrow> nat" where
  "texture_size w h d = unat (scast (w * h * d * 3) :: 64 word)"

text \<open>
  The outcome of \<open>FDTD3D::initialize\<close> depends on the machine. With \<open>GpuFailed\<close> the
  Vulkan initialisation or an allocation fails and a \<open>std::runtime_error\<close> is thrown;
  with \<open>GpuReady\<close> the allocator serves every request it can serve. The argument of
  either is the memory the six field pointers address afterwards (in allocation order):
  the contents of the fresh buffers when they were allocated, and whatever the pointers
  happen to address when they were not, since the constructor leaves them unassigned.
  The material and alpha-beta buffers are filled once by \<open>initialize\<close> and read by no
  operation modelled here.
\<close>

datatype gpu = GpuFailed "nat \<Rightarrow> device_buffer" | GpuReady "nat \<Rightarrow> device_buffer"

datatype solver_error = SolverInitFailed

text \<open>Device memory that happens to be zero-filled, for concrete runs.\<close>

definition zero_memory :: "nat \<Rightarrow> device_buffer" where
  "zero_memory k i = 0"

definition FDTD3D_ctor :: "i32 \<Rightarrow> i32 \<Rightarrow> i32 \<Rightarrow> (nat \<Rightarrow> device_buffer) \<Rightarrow> FDTD3D" where
  "FDTD3D_ctor w h d junk =
     \<lparr>width = w, height = h, depth = d, time_steps = 0,
      electricField_d = junk 0, electricFieldNext_d = junk 1,
      magneticField_d = junk 2, magneticFieldNext_d = junk 3,
      sourceField_d = junk 4, sourceFieldNext_d = junk 5\<rparr>"

text \<open>
  \<open>initialize\<close> throws when Vulkan does not initialise or \<open>allocateBuffer\<close> gets no
  memory. It requests \<open>width_ * height_ * depth_ * 3\<close> floats for each field buffer and
  \<open>width_ * height_ * depth_ * 4\<close> bytes, then as many floats, for the material and
  alpha-beta buffers; a product that is negative as an \<open>int\<close> becomes a request larger
  than half the address space, which no allocator serves. When \<open>initialize\<close> throws,
  the solver object is left with the pointers it has.
\<close>

definition FDTD3D_initialize :: "gpu \<Rightarrow> FDTD3D \<Rightarrow> solver_error + FDTD3D" where
  "FDTD3D_initialize g sim =
     (case g of
        GpuFailed junk \<Rightarrow> Inl SolverInitFailed
      | GpuReady mem \<Rightarrow>
          if sint (width sim * height sim * depth sim * 3) < 0
             \<or> sint (width sim * height sim * depth sim * 4) < 0 then Inl SolverInitFailed
          else Inr (sim\<lparr>electricField_d := mem 0, electricFieldNext_d := mem 1,
                        magneticField_d := mem 2, magneticFieldNext_d := mem 3,
                        sourceField_d := mem 4, sourceFieldNext_d := mem 5\<rparr>))"

definition gpu_memory :: "gpu \<Rightarrow> nat \<Rightarrow> device_buffer" where
  "gpu_memory g = (case g of GpuFailed junk \<Rightarrow> junk | GpuReady mem \<Rightarrow> mem)"

definition swapBuffers :: "FDTD3D \<Rightarrow> FDTD3D" where
  "swapBuffers sim =
     sim\<lparr>electricField_d := electricFieldNext_d sim, electricFieldNext_d := electricField_d sim,
         magneticField_d := magneticFieldNext_d sim, magneticFieldNext_d := magneticField_d sim,
         sourceField_d := sourceFieldNext_d sim, sourceFieldNext_d := sourceField_d sim\<rparr>"

definition FDTD3D_step :: "FDTD3D \<Rightarrow> FDTD3D" where
  "FDTD3D_step sim = (swapBuffers sim)\<lparr>time_steps := time_steps sim + 1\<rparr>"

text \<open>\<open>addSource\<close> computes grid coordinates only to pass them to the \<open>drawEllipse\<close> stub.\<close>

definition FDTD3D_addSource :: "f32 \<Rightarrow> f32 \<Rightarrow> f32 \<Rightarrow> f32 \<Rightarrow> FDTD3D \<Rightarrow> FDTD3D" where
  "FDTD3D_addSource x y z v sim = swapBuffers sim"

text \<open>
  \<open>buffer.resize(size)\<close> and a copy of \<open>size\<close> floats from the device buffer. For a
  product that is negative as an \<open>int\<close>, \<open>size\<close> is beyond what a vector can hold and
  \<open>resize\<close> throws; \<open>initialize\<close> has thrown for such a grid before, and the list of
  that length in the model is the value of no call that returns.
\<close>

definition getElectricField :: "FDTD3D \<Rightarrow> f32 list" where
  "getElectricField sim =
     map (electricField_d sim) [0 ..< texture_size (width sim) (height sim) (depth sim)]"

definition getMagneticField :: "FDTD3D \<Rightarrow> f32 list" where
  "getMagneticField sim =
     map (magneticField_d sim) [0 ..< texture_size (width sim) (height sim) (depth sim)]"

definition getTime :: "FDTD3D \<Rightarrow> nat" where
  "getTime sim = time_steps sim"

section \<open>Session (session/Session.h, session/Session.cpp)\<close>

text \<open>
  \<open>simulation_\<close> is a \<open>unique_ptr\<close>: \<open>None\<close> until \<open>initialize\<close> has run. A reading of
  \<open>std::chrono::steady_clock\<close> is an integer count of nanoseconds; every operation that
  reads the clock takes the reading as its argument \<open>now\<close>.
\<close>

record Session =
  sessionId :: string
  simulation :: "FDTD3D option"
  hasNewFrame :: bool
  needsUpdate :: bool
  lastActivity :: int
  electricFieldBuffer :: "f32 list"
  magneticFieldBuffer :: "f32 list"

definition SESSION_TIMEOUT :: int where
  "SESSION_TIMEOUT = 30 * 60 * 1000000000"

definition Session_ctor :: "string \<Rightarrow> int \<Rightarrow> Session" where
  "Session_ctor sid now =
     \<lparr>sessionId = sid, simulation = None, hasNewFrame = False, needsUpdate = True,
      lastActivity = now, electricFieldBuffer = [], magneticFieldBuffer = []\<rparr>"

text \<open>\<open>std::vector::resize\<close>: keep a prefix, or pad with value-initialised elements.\<close>

definition resize :: "nat \<Rightarrow> 'a::zero list \<Rightarrow> 'a list" where
  "resize n xs = take n xs @ replicate (n - length xs) 0"

text \<open>
  \<open>initialize\<close> assigns \<open>simulation_\<close> before it calls \<open>FDTD3D::initialize\<close>: when that
  throws, the exception leaves with the session holding the solver object, and the two
  \<open>resize\<close> calls are not reached. The result is then the exception and the session
  as it is left.
\<close>

definition Session_initialize ::
  "i32 \<Rightarrow> i32 \<Rightarrow> i32 \<Rightarrow> gpu \<Rightarrow> Session \<Rightarrow> (solver_error \<times> Session) + Session" where
  "Session_initialize w h d g s =
     (let sim0 = FDTD3D_ctor w h d (gpu_memory g)
      in case FDTD3D_initialize g sim0 of
           Inl e \<Rightarrow> Inl (e, s\<lparr>simulation := Some sim0\<rparr>)
         | Inr sim \<Rightarrow>
             Inr (s\<lparr>simulation := Some sim,
                    electricFieldBuffer := resize (texture_size w h d) (electricFieldBuffer s),
                    magneticFieldBuffer := resize (texture_size w h d) (magneticFieldBuffer s)\<rparr>))"

definition Session_step :: "int \<Rightarrow> Session \<Rightarrow> Session" where
  "Session_step now s =
     (case simulation s of
        None \<Rightarrow> s
      | Some sim \<Rightarrow> s\<lparr>simulation := Some (FDTD3D_step sim), hasNewFrame := True,
                       lastActivity := now\<rparr>)"

definition Session_handleInput :: "f32 \<Rightarrow> f32 \<Rightarrow> f32 \<Rightarrow> f32 \<Rightarrow> int \<Rightarrow> Session \<Rightarrow> Session" where
  "Session_handleInput x y z v now s =
     (case simulation s of
        None \<Rightarrow> s
      | Some sim \<Rightarrow> s\<lparr>simulation := Some (FDTD3D_addSource x y z v sim), lastActivity := now\<rparr>)"

text \<open>The bytes of a float array as \<open>memcpy\<close> sees them on a little-endian host.\<close>

definition float_bytes :: "f32 \<Rightarrow> u8 list" where
  "float_bytes f = [ucast f, ucast (drop_bit 8 f), ucast (drop_bit 16 f), ucast (drop_bit 24 f)]"

definition floats_bytes :: "f32 list \<Rightarrow> u8 list" where
  "floats_bytes fs = concat (map float_bytes fs)"

text \<open>\<open>memcpy(dst + pos, src, length src)\<close> into a vector that is large enough.\<close>

definition memcpy_at :: "'a list \<Rightarrow> nat \<Rightarrow> 'a list \<Rightarrow> 'a list" where
  "memcpy_at dst pos src = take pos dst @ src @ drop (pos + length src) dst"

text \<open>\<open>getFrameData\<close> writes into the caller's vector and refreshes the session's two
  snapshot buffers; it does not touch \<open>hasNewFrame_\<close>.\<close>

definition Session_getFrameData :: "u8 list \<Rightarrow> Session \<Rightarrow> u8 list \<times> Session" where
  "Session_getFrameData buffer s =
     (case simulation s of
        None \<Rightarrow> ([], s)
      | Some sim \<Rightarrow>
          if \<not> hasNewFrame s then ([], s)
          else
            let e = getElectricField sim;
                m = getMagneticField sim;
                totalSize = length e * 4 * 2;
                b0 = resize totalSize buffer;
                b1 = memcpy_at b0 0 (floats_bytes e);
                b2 = memcpy_at b1 (length e * 4) (floats_bytes m)
            in (b2, s\<lparr>electricFieldBuffer := e, magneticFieldBuffer := m\<rparr>))"

definition Session_markFrameSent :: "Session \<Rightarrow> Session" where
  "Session_markFrameSent s = s\<lparr>hasNewFrame := False\<rparr>"

definition Session_getSimulationTime :: "Session \<Rightarrow> nat" where
  "Session_getSimulationTime s = (case simulation s of None \<Rightarrow> 0 | Some sim \<Rightarrow> getTime sim)"

definition Session_update :: "int \<Rightarrow> Session \<Rightarrow> Session" where
  "Session_update now s =
     (if needsUpdate s then (Session_step now s)\<lparr>needsUpdate := False\<rparr> else s)"

definition Session_isExpired :: "int \<Rightarrow> Session \<Rightarrow> bool" where
  "Session_isExpired now s = (now - lastActivity s > SESSION_TIMEOUT)"

section \<open>Session registry (session/SessionManager.h, session/SessionManager.cpp)\<close>

text \<open>
  A connection is the \<open>WebSocketType *\<close> that identifies it. Each \<open>std::unordered_map\<close>
  is the list of its entries in iteration order: \<open>m[k] = v\<close> is \<open>AList.update\<close>,
  \<open>erase(k)\<close> is \<open>AList.delete\<close>, \<open>find(k)\<close> is \<open>map_of\<close>, and a range-\<open>for\<close> visits the
  entries of the list. Every registry operation runs under the one mutex, so it is a
  function from the registry to the registry it leaves, or to the fault it ends in; an
  operation that reads the clock takes one reading \<open>now\<close> for all the reads it makes.
\<close>

type_synonym connection = nat

record SessionManager =
  connectionToSession :: "(connection \<times> string) list"
  sessions :: "(string \<times> Session) list"
  sessionToConnection :: "(string \<times> connection) list"

definition SessionManager_ctor :: SessionManager where
  "SessionManager_ctor = \<lparr>connectionToSession = [], sessions = [], sessionToConnection = []\<rparr>"

text \<open>
  \<open>sessions_\<close> owns its sessions through \<open>unique_ptr\<close>: erasing an entry, or assigning
  over it, destroys the \<open>Session\<close>. \<open>~Session\<close> calls \<open>simulation_->cleanup()\<close> when
  \<open>simulation_\<close> is set, and the destruction of the member \<open>simulation_\<close> then runs
  \<open>~FDTD3D\<close>, which calls \<open>cleanup()\<close> again. \<open>cleanup()\<close> hands the eight buffer
  pointers to \<open>free\<close> and resets none of them. So the destruction of a session that
  holds a solver frees every buffer twice (and, when \<open>initialize\<close> threw, frees
  pointers that were never assigned): undefined behaviour, \<open>InvalidFree\<close> in the model.
  A session without solver is destroyed without effect. \<open>Thrown\<close> is an exception
  that leaves the operation.
\<close>

datatype fault = InvalidFree | Thrown solver_error

definition Session_dtor :: "Session \<Rightarrow> fault + unit" where
  "Session_dtor s = (case simulation s of None \<Rightarrow> Inr () | Some sim \<Rightarrow> Inl InvalidFree)"

text \<open>\<open>sessions_.erase(sessionId)\<close>\<close>

definition sessions_erase :: "string \<Rightarrow> (string \<times> Session) list \<Rightarrow> fault + (string \<times> Session) list" where
  "sessions_erase sid ss =
     (case map_of ss sid of
        None \<Rightarrow> Inr ss
      | Some s \<Rightarrow> and_then (Session_dtor s) (\<lambda>u. Inr (AList.delete sid ss)))"

text \<open>\<open>sessions_[sessionId] = std::move(session)\<close>: the move assignment destroys the
  session stored under the id, if there is one.\<close>

definition sessions_assign ::
  "string \<Rightarrow> Session \<Rightarrow> (string \<times> Session) list \<Rightarrow> fault + (string \<times> Session) list" where
  "sessions_assign sid session ss =
     (case map_of ss sid of
        None \<Rightarrow> Inr (AList.update sid session ss)
      | Some old \<Rightarrow> and_then (Session_dtor old) (\<lambda>u. Inr (AList.update sid session ss)))"

text \<open>
  \<open>generateSessionId\<close> draws 32 hexadecimal digits from a freshly seeded generator; the
  id it returns is the argument \<open>sid\<close>. If \<open>initialize\<close> throws, the exception
  leaves \<open>createSession\<close> before any map is touched, and the unwinding destroys the
  local session.
\<close>

definition createSession ::
  "connection \<Rightarrow> string \<Rightarrow> int \<Rightarrow> gpu \<Rightarrow> SessionManager \<Rightarrow> fault + (string \<times> SessionManager)" where
  "createSession ws sid now g m =
     (case Session_initialize 128 128 128 g (Session_ctor sid now) of
        Inl (e, left) \<Rightarrow> and_then (Session_dtor left) (\<lambda>u. Inl (Thrown e))
      | Inr session \<Rightarrow>
          and_then (sessions_assign sid session (sessions m)) (\<lambda>ss.
            Inr (sid,
                 m\<lparr>sessions := ss,
                   connectionToSession := AList.update ws sid (connectionToSession m),
                   sessionToConnection := AList.update sid ws (sessionToConnection m)\<rparr>)))"

definition removeSession :: "connection \<Rightarrow> SessionManager \<Rightarrow> fault + SessionManager" where
  "removeSession ws m =
     (case map_of (connectionToSession m) ws of
        None \<Rightarrow> Inr m
      | Some sid \<Rightarrow>
          and_then (sessions_erase sid (sessions m)) (\<lambda>ss.
            Inr (m\<lparr>sessions := ss,
                   sessionToConnection := AList.delete sid (sessionToConnection m),
                   connectionToSession := AList.delete ws (connectionToSession m)\<rparr>)))"

definition getSessionId :: "connection \<Rightarrow> SessionManager \<Rightarrow> string option" where
  "getSessionId ws m = map_of (connectionToSession m) ws"

text \<open>The body of the \<open>if\<close> in \<open>handleControl\<close> holds two comments and no statement.\<close>

definition handleControl :: "string \<Rightarrow> ClientControlMessage \<Rightarrow> SessionManager \<Rightarrow> SessionManager" where
  "handleControl sid control m =
     (case map_of (sessions m) sid of
        None \<Rightarrow> m
      | Some s \<Rightarrow> m)"

text \<open>
  \<open>cleanupExpiredSessions\<close>: the outer loop visits every entry of \<open>sessions_\<close>; erasing
  the visited entry does not disturb the rest of the iteration, so the loop is a
  recursion over the entries present when it starts. For an expired session,
  \<open>sessions_.erase(it++)\<close> destroys the visited session first; then its id is erased
  from \<open>sessionToConnection_\<close> and the inner loop erases every entry of
  \<open>connectionToSession_\<close> whose value is the id.
\<close>

definition erase_connections_of :: "string \<Rightarrow> (connection \<times> string) list \<Rightarrow> (connection \<times> string) list" where
  "erase_connections_of sid cs = filter (\<lambda>(ws, sid'). sid' \<noteq> sid) cs"

text \<open>The body of the \<open>if (it->second->isExpired())\<close> branch, for the visited entry
  \<open>(sid, s)\<close>.\<close>

definition erase_session :: "string \<Rightarrow> Session \<Rightarrow> SessionManager \<Rightarrow> fault + SessionManager" where
  "erase_session sid s m =
     and_then (Session_dtor s) (\<lambda>u.
       Inr (m\<lparr>sessions := AList.delete sid (sessions m),
              sessionToConnection := AList.delete sid (sessionToConnection m),
              connectionToSession := erase_connections_of sid (connectionToSession m)\<rparr>))"

fun cleanup_loop :: "int \<Rightarrow> (string \<times> Session) list \<Rightarrow> SessionManager \<Rightarrow> fault + SessionManager" where
  "cleanup_loop now [] m = Inr m"
| "cleanup_loop now ((sid, s) # rest) m =
     (if Session_isExpired now s then and_then (erase_session sid s m) (cleanup_loop now rest)
      else cleanup_loop now rest m)"

definition cleanupExpiredSessions :: "int \<Rightarrow> SessionManager \<Rightarrow> fault + SessionManager" where
  "cleanupExpiredSessions now m = cleanup_loop now (sessions m) m"

definition updateAll :: "int \<Rightarrow> SessionManager \<Rightarrow> fault + SessionManager" where
  "updateAll now m =
     cleanupExpiredSessions now
       (m\<lparr>sessions := map (\<lambda>(sid, s). (sid, Session_update now s)) (sessions m)\<rparr>)"

text \<open>
  One iteration of the loop of \<open>broadcastFrames\<close>. What is handed to the connection is
  \<open>encodeFrame\<close> of the session id, the frame data and the simulation time; the model
  records these three with the connection.
\<close>

type_synonym sent_frame = "connection \<times> string \<times> u8 list \<times> nat"

definition broadcast_one ::
  "(string \<times> connection) list \<Rightarrow> string \<Rightarrow> Session \<Rightarrow> sent_frame list \<times> Session" where
  "broadcast_one s2c sid s =
     (if \<not> hasNewFrame s then ([], s)
      else case map_of s2c sid of
        None \<Rightarrow> ([], s)
      | Some ws \<Rightarrow>
          let (frameData, s1) = Session_getFrameData [] s
          in if frameData \<noteq> []
             then ([(ws, sid, frameData, Session_getSimulationTime s1)], Session_markFrameSent s1)
             else ([], s1))"

definition broadcastFrames :: "SessionManager \<Rightarrow> sent_frame list \<times> SessionManager" where
  "broadcastFrames m =
     (concat (map (\<lambda>(sid, s). fst (broadcast_one (sessionToConnection m) sid s)) (sessions m)),
      m\<lparr>sessions := map (\<lambda>(sid, s). (sid, snd (broadcast_one (sessionToConnection m) sid s)))
                        (sessions m)\<rparr>)"

subsection \<open>Sequences of registry operations\<close>

text \<open>A sequence runs until an operation ends in a fault; the registry is then gone.\<close>

datatype registry_op =
    Create connection string int gpu
  | Remove connection
  | Tick int
  | Flush
  | Control string ClientControlMessage

fun exec_op :: "registry_op \<Rightarrow> SessionManager \<Rightarrow> fault + SessionManager" where
  "exec_op (Create ws sid now g) m =
     and_then (createSession ws sid now g m) (\<lambda>(sid', m'). Inr m')"
| "exec_op (Remove ws) m = removeSession ws m"
| "exec_op (Tick now) m = updateAll now m"
| "exec_op Flush m = Inr (snd (broadcastFrames m))"
| "exec_op (Control sid control) m = Inr (handleControl sid control m)"

fun run_ops :: "registry_op list \<Rightarrow> SessionManager \<Rightarrow> fault + SessionManager" where
  "run_ops [] m = Inr m"
| "run_ops (op # ops) m = and_then (exec_op op m) (run_ops ops)"





subsection \<open>Sequences of operations on one session\<close>

text \<open>The operations that reach a \<open>Session\<close>; a control message reaches none of its
  methods (\<open>handleControl\<close> above), so its effect on the session is the identity.\<close>

datatype session_op =
    OpHandleInput f32 f32 f32 f32 int
  | OpGetFrameData
  | OpMarkFrameSent
  | OpStep int
  | OpUpdate int
  | OpControl ClientControlMessage

fun exec_session_op :: "session_op \<Rightarrow> Session \<Rightarrow> Session" where
  "exec_session_op (OpHandleInput x y z v now) s = Session_handleInput x y z v now s"
| "exec_session_op OpGetFrameData s = snd (Session_getFrameData [] s)"
| "exec_session_op OpMarkFrameSent s = Session_markFrameSent s"
| "exec_session_op (OpStep now) s = Session_step now s"
| "exec_session_op (OpUpdate now) s = Session_update now s"
| "exec_session_op (OpControl c) s = s"

fun run_session_ops :: "session_op list \<Rightarrow> Session \<Rightarrow> Session" where
  "run_session_ops [] s = s"
| "run_session_ops (op # ops) s = run_session_ops ops (exec_session_op op s)"

fun is_update :: "session_op \<Rightarrow> bool" where
  "is_update (OpUpdate now) = True"
| "is_update op = False"

fun is_step :: "session_op \<Rightarrow> bool" where
  "is_step (OpStep now) = True"
| "is_step op = False"

section \<open>Compression (utils/Compression.cpp)\<close>

text \<open>
  The argument is the \<open>size\<close> bytes at \<open>data\<close>. Both functions build a vector of \<open>size\<close>
  zero bytes and \<open>memcpy\<close> the input over it.
\<close>

definition compress :: "u8 list \<Rightarrow> u8 list" where
  "compress d = memcpy_at (replicate (length d) 0) 0 d"

definition decompress :: "u8 list \<Rightarrow> u8 list" where
  "decompress d = memcpy_at (replicate (length d) 0) 0 d"

section \<open>Properties of the codec\<close>

subsection \<open>Bytes and words\<close>

lemma char_of_byte_of_char: "char_of_byte (byte_of_char c) = c"
proof -
  have "unat (of_nat (of_char c :: nat) :: u8) = of_char c"
    by (simp add: unat_of_nat)
  then show ?thesis by (simp add: byte_of_char_def char_of_byte_def)
qed

lemma map_char_of_byte_of_char: "map char_of_byte (map byte_of_char s) = s"
  by (induction s) (simp_all add: char_of_byte_of_char)

lemma le32_reassemble:
  "(ucast (ucast v :: u8) OR push_bit 8 (ucast (ucast (drop_bit 8 v) :: u8))
     OR push_bit 16 (ucast (ucast (drop_bit 16 v) :: u8))
     OR push_bit 24 (ucast (ucast (drop_bit 24 v) :: u8)) :: 32 word) = v"
proof (rule bit_word_eqI)
  fix n assume "n < LENGTH(32)"
  then consider "n < 8" | "8 \<le> n" "n < 16" | "16 \<le> n" "n < 24" | "24 \<le> n" "n < 32"
    by fastforce
  then show "bit (ucast (ucast v :: u8) OR push_bit 8 (ucast (ucast (drop_bit 8 v) :: u8))
     OR push_bit 16 (ucast (ucast (drop_bit 16 v) :: u8))
     OR push_bit 24 (ucast (ucast (drop_bit 24 v) :: u8)) :: 32 word) n = bit v n"
    by cases (auto simp add: bit_simps)
qed

lemma ucast_signed_drop_bit:
  "k \<le> 24 \<Longrightarrow> (ucast (signed_drop_bit k (v :: 32 word)) :: u8) = ucast (drop_bit k v)"
  by (rule bit_word_eqI) (auto simp add: bit_simps)

lemma writeInt32_eq: "writeInt32 v buffer = writeUInt32 v buffer"
  by (simp add: writeInt32_def writeUInt32_def ucast_signed_drop_bit)

lemma writeFloat_eq: "writeFloat v buffer = writeUInt32 v buffer"
  by (simp add: writeFloat_def writeUInt32_def)

lemma writeUInt32_append:
  "writeUInt32 v buffer = buffer @ [ucast v, ucast (drop_bit 8 v), ucast (drop_bit 16 v), ucast (drop_bit 24 v)]"
  by (simp add: writeUInt32_def push_back_def)

lemma read_le32_in_range:
  "dec_offset d + 4 \<le> dec_size d \<Longrightarrow>
   read_le32 d = Inr (ucast (dec_data d ! dec_offset d)
      OR push_bit 8 (ucast (dec_data d ! (dec_offset d + 1)))
      OR push_bit 16 (ucast (dec_data d ! (dec_offset d + 2)))
      OR push_bit 24 (ucast (dec_data d ! (dec_offset d + 3))))"
  by (simp add: read_le32_def byte_at_def and_then_def)

lemma read_le32_written:
  assumes "dec_data d = writeUInt32 v pre @ post" "dec_offset d = length pre"
  shows "read_le32 d = Inr v"
proof -
  have "dec_offset d + 4 \<le> dec_size d"
    using assms by (simp add: dec_size_def writeUInt32_append)
  then show ?thesis
    using assms by (simp add: read_le32_in_range writeUInt32_append nth_append le32_reassemble)
qed

lemma readUInt32_written:
  assumes "dec_data d = writeUInt32 v pre @ post" "dec_offset d = length pre"
  shows "readUInt32 d = Inr (v, advance 4 d)"
proof -
  have "dec_offset d + 4 \<le> dec_size d"
    using assms by (simp add: dec_size_def writeUInt32_append)
  then show ?thesis
    using read_le32_written [OF assms] by (simp add: readUInt32_def and_then_def)
qed

lemma readFloat_written:
  assumes "dec_data d = writeFloat v pre @ post" "dec_offset d = length pre"
  shows "readFloat d = Inr (v, advance 4 d)"
proof -
  have a: "dec_data d = writeUInt32 v pre @ post" using assms by (simp add: writeFloat_eq)
  have "dec_offset d + 4 \<le> dec_size d"
    using a assms by (simp add: dec_size_def writeUInt32_append)
  then show ?thesis
    using read_le32_written [OF a assms(2)] by (simp add: readFloat_def and_then_def)
qed

lemma readInt32_written:
  assumes "dec_data d = writeInt32 v pre @ post" "dec_offset d = length pre"
  shows "readInt32 d = Inr (v, advance 4 d)"
proof -
  have a: "dec_data d = writeUInt32 v pre @ post" using assms by (simp add: writeInt32_eq)
  have "dec_offset d + 4 \<le> dec_size d"
    using a assms by (simp add: dec_size_def writeUInt32_append)
  then show ?thesis
    using read_le32_written [OF a assms(2)] by (simp add: readInt32_def and_then_def)
qed

lemma writeDouble_append:
  "writeDouble v buffer = buffer @ [ucast v, ucast (drop_bit 8 v), ucast (drop_bit 16 v),
      ucast (drop_bit 24 v), ucast (drop_bit 32 v), ucast (drop_bit 40 v),
      ucast (drop_bit 48 v), ucast (drop_bit 56 v)]"
  by (simp add: writeDouble_def eval_nat_numeral push_back_def)

lemma readDouble_loop_in_range:
  "dec_offset d + 8 \<le> dec_size d \<Longrightarrow>
   readDouble_loop d 8 0 0 = Inr (ucast (dec_data d ! dec_offset d)
      OR push_bit 8 (ucast (dec_data d ! (dec_offset d + 1)))
      OR push_bit 16 (ucast (dec_data d ! (dec_offset d + 2)))
      OR push_bit 24 (ucast (dec_data d ! (dec_offset d + 3)))
      OR push_bit 32 (ucast (dec_data d ! (dec_offset d + 4)))
      OR push_bit 40 (ucast (dec_data d ! (dec_offset d + 5)))
      OR push_bit 48 (ucast (dec_data d ! (dec_offset d + 6)))
      OR push_bit 56 (ucast (dec_data d ! (dec_offset d + 7))))"
  by (simp add: eval_nat_numeral byte_at_def and_then_def ac_simps)

lemma le64_reassemble:
  "(ucast (ucast v :: u8) OR push_bit 8 (ucast (ucast (drop_bit 8 v) :: u8))
     OR push_bit 16 (ucast (ucast (drop_bit 16 v) :: u8))
     OR push_bit 24 (ucast (ucast (drop_bit 24 v) :: u8))
     OR push_bit 32 (ucast (ucast (drop_bit 32 v) :: u8))
     OR push_bit 40 (ucast (ucast (drop_bit 40 v) :: u8))
     OR push_bit 48 (ucast (ucast (drop_bit 48 v) :: u8))
     OR push_bit 56 (ucast (ucast (drop_bit 56 v) :: u8)) :: 64 word) = v"
proof (rule bit_word_eqI)
  fix n assume "n < LENGTH(64)"
  then consider "n < 8" | "8 \<le> n" "n < 16" | "16 \<le> n" "n < 24" | "24 \<le> n" "n < 32"
    | "32 \<le> n" "n < 40" | "40 \<le> n" "n < 48" | "48 \<le> n" "n < 56" | "56 \<le> n" "n < 64"
    by fastforce
  then show "bit (ucast (ucast v :: u8) OR push_bit 8 (ucast (ucast (drop_bit 8 v) :: u8))
     OR push_bit 16 (ucast (ucast (drop_bit 16 v) :: u8))
     OR push_bit 24 (ucast (ucast (drop_bit 24 v) :: u8))
     OR push_bit 32 (ucast (ucast (drop_bit 32 v) :: u8))
     OR push_bit 40 (ucast (ucast (drop_bit 40 v) :: u8))
     OR push_bit 48 (ucast (ucast (drop_bit 48 v) :: u8))
     OR push_bit 56 (ucast (ucast (drop_bit 56 v) :: u8)) :: 64 word) n = bit v n"
    by cases (auto simp add: bit_simps)
qed

lemma readDouble_written:
  assumes "dec_data d = writeDouble v pre @ post" "dec_offset d = length pre"
  shows "readDouble d = Inr (v, advance 8 d)"
proof -
  have r: "dec_offset d + 8 \<le> dec_size d"
    using assms by (simp add: dec_size_def writeDouble_append)
  have "readDouble_loop d 8 0 0 = Inr v"
    using assms by (simp add: readDouble_loop_in_range [OF r] writeDouble_append nth_append le64_reassemble)
  with r show ?thesis by (simp add: readDouble_def and_then_def)
qed

lemma readString_written:
  assumes "dec_data d = writeString s pre @ post" "dec_offset d = length pre"
    and "length s < 2 ^ 32"
  shows "readString d = Inr (s, advance (4 + length s) d)"
proof -
  let ?n = "of_nat (length s) :: u32"
  have u: "unat ?n = length s"
    using assms(3) by (simp add: unat_of_nat)
  have a: "dec_data d = writeUInt32 ?n pre @ (map byte_of_char s @ post)"
    using assms(1) by (simp add: writeString_def)
  have r: "readUInt32 d = Inr (?n, advance 4 d)"
    by (rule readUInt32_written [OF a assms(2)])
  have dr: "drop (length pre + 4) (dec_data d) = map byte_of_char s @ post"
    using a by (simp add: writeUInt32_append)
  have sz: "dec_size d = length pre + 4 + length s + length post"
    using a by (simp add: dec_size_def writeUInt32_append)
  have le: "\<not> dec_offset (advance 4 d) + unat ?n > dec_size (advance 4 d)"
    using assms(2) by (simp add: advance_def dec_size_def u a writeUInt32_append)
  have tk: "take (unat ?n) (drop (dec_offset (advance 4 d)) (dec_data (advance 4 d))) = map byte_of_char s"
    using assms(2) dr by (simp add: advance_def u)
  have adv: "advance (unat ?n) (advance 4 d) = advance (4 + length s) d"
    by (simp add: advance_def u)
  show ?thesis
    unfolding readString_def r and_then_def
    using le tk adv by (simp add: comp_def char_of_byte_of_char)
qed

lemma decodeHeader_written:
  assumes "dec_data d = writeHeader t pre @ post" "dec_offset d = length pre"
  shows "decodeHeader d = Inr (t, advance 1 d)"
  using assms by (simp add: decodeHeader_def writeHeader_def push_back_def dec_size_def byte_at_def and_then_def nth_append)

subsection \<open>Readers applied to written fields\<close>

lemma writeHeader_flat: "writeHeader t buffer = buffer @ writeHeader t []"
  by (simp add: writeHeader_def push_back_def)

lemma writeUInt32_flat: "writeUInt32 v buffer = buffer @ writeUInt32 v []"
  by (simp add: writeUInt32_append)

lemma writeInt32_flat: "writeInt32 v buffer = buffer @ writeInt32 v []"
  by (simp add: writeInt32_eq writeUInt32_append)

lemma writeFloat_flat: "writeFloat v buffer = buffer @ writeFloat v []"
  by (simp add: writeFloat_eq writeUInt32_append)

lemma writeDouble_flat: "writeDouble v buffer = buffer @ writeDouble v []"
  by (simp add: writeDouble_append)

lemma writeString_flat: "writeString s buffer = buffer @ writeString s []"
  by (simp add: writeString_def writeUInt32_append)

lemma length_writeHeader: "length (writeHeader t []) = 1"
  by (simp add: writeHeader_def push_back_def)

lemma length_writeUInt32: "length (writeUInt32 v []) = 4"
  by (simp add: writeUInt32_append)

lemma length_writeInt32: "length (writeInt32 v []) = 4"
  by (simp add: writeInt32_eq writeUInt32_append)

lemma length_writeFloat: "length (writeFloat v []) = 4"
  by (simp add: writeFloat_eq writeUInt32_append)

lemma length_writeDouble: "length (writeDouble v []) = 8"
  by (simp add: writeDouble_append)

lemma length_writeString: "length (writeString s []) = 4 + length s"
  by (simp add: writeString_def writeUInt32_append)

lemmas length_writes = length_writeHeader length_writeUInt32 length_writeInt32
  length_writeFloat length_writeDouble length_writeString

lemma decodeHeader_at:
  "dec_data d = pre @ writeHeader t [] @ post \<Longrightarrow> dec_offset d = length pre \<Longrightarrow>
   decodeHeader d = Inr (t, advance 1 d)"
  using decodeHeader_written [of d t pre post] writeHeader_flat [of t pre] by simp

lemma readUInt32_at:
  "dec_data d = pre @ writeUInt32 v [] @ post \<Longrightarrow> dec_offset d = length pre \<Longrightarrow>
   readUInt32 d = Inr (v, advance 4 d)"
  using readUInt32_written [of d v pre post] writeUInt32_flat [of v pre] by simp

lemma readInt32_at:
  "dec_data d = pre @ writeInt32 v [] @ post \<Longrightarrow> dec_offset d = length pre \<Longrightarrow>
   readInt32 d = Inr (v, advance 4 d)"
  using readInt32_written [of d v pre post] writeInt32_flat [of v pre] by simp

lemma readFloat_at:
  "dec_data d = pre @ writeFloat v [] @ post \<Longrightarrow> dec_offset d = length pre \<Longrightarrow>
   readFloat d = Inr (v, advance 4 d)"
  using readFloat_written [of d v pre post] writeFloat_flat [of v pre] by simp

lemma readDouble_at:
  "dec_data d = pre @ writeDouble v [] @ post \<Longrightarrow> dec_offset d = length pre \<Longrightarrow>
   readDouble d = Inr (v, advance 8 d)"
  using readDouble_written [of d v pre post] writeDouble_flat [of v pre] by simp

lemma readString_at:
  "dec_data d = pre @ writeString s [] @ post \<Longrightarrow> dec_offset d = length pre \<Longrightarrow>
   length s < 2 ^ 32 \<Longrightarrow> readString d = Inr (s, advance (4 + length s) d)"
  using readString_written [of d s pre post] writeString_flat [of s pre] by simp

lemma advance_advance: "advance m (advance n d) = advance (n + m) d"
  by (simp add: advance_def)

lemma dec_data_advance: "dec_data (advance n d) = dec_data d"
  by (simp add: advance_def)

lemma dec_offset_advance: "dec_offset (advance n d) = dec_offset d + n"
  by (simp add: advance_def)

lemma encodeFrame_flat:
  "encodeFrame sid payload t buf =
     writeHeader SERVER_FRAME [] @ writeString sid [] @ writeDouble t []
       @ writeUInt32 (of_nat (length payload)) [] @ payload"
  unfolding encodeFrame_def clear_def
  by (subst writeUInt32_flat, subst writeDouble_flat, subst writeString_flat) simp

lemma encodeState_flat:
  "encodeState sid time w h d buf =
     writeHeader SERVER_STATE [] @ writeString sid [] @ writeFloat time []
       @ writeInt32 w [] @ writeInt32 h [] @ writeInt32 d []"
  unfolding encodeState_def clear_def
  by (subst writeInt32_flat, subst writeInt32_flat [of h], subst writeInt32_flat [of w],
      subst writeFloat_flat, subst writeString_flat) simp

lemma encodeError_flat:
  "encodeError sid err buf =
     writeHeader SERVER_ERROR [] @ writeString sid [] @ writeString err []"
  unfolding encodeError_def clear_def
  by (subst writeString_flat, subst writeString_flat [of sid]) simp

lemma frame_fields:
  assumes "length sid < 2 ^ 32" "length payload < 2 ^ 32"
  shows "and_then (decodeHeader (ProtocolDecoder (encodeFrame sid payload t buf))) (\<lambda>(tag, d1).
         and_then (readString d1) (\<lambda>(s, d2).
         and_then (readDouble d2) (\<lambda>(t', d3).
         and_then (readUInt32 d3) (\<lambda>(n, d4).
           Inr (tag, s, t', unat n, drop (dec_offset d4) (dec_data d4))))))
         = Inr (SERVER_FRAME, sid, t, length payload, payload)"
proof -
  let ?n = "of_nat (length payload) :: u32"
  let ?d0 = "ProtocolDecoder (encodeFrame sid payload t buf)"
  have data: "dec_data ?d0 = writeHeader SERVER_FRAME [] @ writeString sid [] @ writeDouble t []
       @ writeUInt32 ?n [] @ payload"
    by (simp add: ProtocolDecoder_def encodeFrame_flat)
  have off: "dec_offset ?d0 = 0" by (simp add: ProtocolDecoder_def)
  have h: "decodeHeader ?d0 = Inr (SERVER_FRAME, advance 1 ?d0)"
    by (rule decodeHeader_at [where pre = "[]"]) (simp_all add: data off)
  have s: "readString (advance 1 ?d0) = Inr (sid, advance (4 + length sid) (advance 1 ?d0))"
    by (rule readString_at [where pre = "writeHeader SERVER_FRAME []"])
       (use assms in \<open>simp_all add: data off dec_data_advance dec_offset_advance length_writes\<close>)
  have t: "readDouble (advance (5 + length sid) ?d0) = Inr (t, advance 8 (advance (5 + length sid) ?d0))"
    by (rule readDouble_at [where pre = "writeHeader SERVER_FRAME [] @ writeString sid []"])
       (simp_all add: data off dec_data_advance dec_offset_advance length_writes)
  have n: "readUInt32 (advance (13 + length sid) ?d0) = Inr (?n, advance 4 (advance (13 + length sid) ?d0))"
    by (rule readUInt32_at [where pre = "writeHeader SERVER_FRAME [] @ writeString sid [] @ writeDouble t []"])
       (simp_all add: data off dec_data_advance dec_offset_advance length_writes)
  have u: "unat ?n = length payload"
    using assms(2) by (simp add: unat_of_nat)
  have rest: "drop (17 + length sid) (dec_data ?d0) = payload"
    by (simp add: data length_writes)
  show ?thesis
    using rest by (simp add: h s t n u and_then_def advance_advance dec_data_advance dec_offset_advance off del: One_nat_def)
qed

lemma state_fields:
  assumes "length sid < 2 ^ 32"
  shows "and_then (decodeHeader (ProtocolDecoder (encodeState sid time w h dp buf))) (\<lambda>(tag, d1).
         and_then (readString d1) (\<lambda>(s, d2).
         and_then (readFloat d2) (\<lambda>(t', d3).
         and_then (readInt32 d3) (\<lambda>(w', d4).
         and_then (readInt32 d4) (\<lambda>(h', d5).
         and_then (readInt32 d5) (\<lambda>(dp', d6).
           Inr (tag, s, t', w', h', dp', drop (dec_offset d6) (dec_data d6))))))))
         = Inr (SERVER_STATE, sid, time, w, h, dp, [])"
proof -
  let ?d0 = "ProtocolDecoder (encodeState sid time w h dp buf)"
  have data: "dec_data ?d0 = writeHeader SERVER_STATE [] @ writeString sid [] @ writeFloat time []
       @ writeInt32 w [] @ writeInt32 h [] @ writeInt32 dp []"
    by (simp add: ProtocolDecoder_def encodeState_flat)
  have off: "dec_offset ?d0 = 0" by (simp add: ProtocolDecoder_def)
  have h: "decodeHeader ?d0 = Inr (SERVER_STATE, advance 1 ?d0)"
    by (rule decodeHeader_at [where pre = "[]"]) (simp_all add: data off)
  have s: "readString (advance 1 ?d0) = Inr (sid, advance (4 + length sid) (advance 1 ?d0))"
    by (rule readString_at [where pre = "writeHeader SERVER_STATE []"])
       (use assms in \<open>simp_all add: data off dec_data_advance dec_offset_advance length_writes\<close>)
  have t: "readFloat (advance (5 + length sid) ?d0) = Inr (time, advance 4 (advance (5 + length sid) ?d0))"
    by (rule readFloat_at [where pre = "writeHeader SERVER_STATE [] @ writeString sid []"])
       (simp_all add: data off dec_data_advance dec_offset_advance length_writes)
  have w: "readInt32 (advance (9 + length sid) ?d0) = Inr (w, advance 4 (advance (9 + length sid) ?d0))"
    by (rule readInt32_at [where pre = "writeHeader SERVER_STATE [] @ writeString sid [] @ writeFloat time []"])
       (simp_all add: data off dec_data_advance dec_offset_advance length_writes)
  have hh: "readInt32 (advance (13 + length sid) ?d0) = Inr (h, advance 4 (advance (13 + length sid) ?d0))"
    by (rule readInt32_at [where pre = "writeHeader SERVER_STATE [] @ writeString sid [] @ writeFloat time []
          @ writeInt32 w []"])
       (simp_all add: data off dec_data_advance dec_offset_advance length_writes)
  have dd: "readInt32 (advance (17 + length sid) ?d0) = Inr (dp, advance 4 (advance (17 + length sid) ?d0))"
    by (rule readInt32_at [where pre = "writeHeader SERVER_STATE [] @ writeString sid [] @ writeFloat time []
          @ writeInt32 w [] @ writeInt32 h []" and post = "[]"])
       (simp_all add: data off dec_data_advance dec_offset_advance length_writes)
  have rest: "drop (21 + length sid) (dec_data ?d0) = []"
    by (simp add: data length_writes)
  show ?thesis
    using rest by (simp add: h s t w hh dd and_then_def advance_advance dec_data_advance dec_offset_advance off del: One_nat_def)
qed

lemma error_fields:
  assumes "length sid < 2 ^ 32" "length err < 2 ^ 32"
  shows "and_then (decodeHeader (ProtocolDecoder (encodeError sid err buf))) (\<lambda>(tag, d1).
         and_then (readString d1) (\<lambda>(s, d2).
         and_then (readString d2) (\<lambda>(e, d3).
           Inr (tag, s, e, drop (dec_offset d3) (dec_data d3)))))
         = Inr (SERVER_ERROR, sid, err, [])"
proof -
  let ?d0 = "ProtocolDecoder (encodeError sid err buf)"
  have data: "dec_data ?d0 = writeHeader SERVER_ERROR [] @ writeString sid [] @ writeString err []"
    by (simp add: ProtocolDecoder_def encodeError_flat)
  have off: "dec_offset ?d0 = 0" by (simp add: ProtocolDecoder_def)
  have h: "decodeHeader ?d0 = Inr (SERVER_ERROR, advance 1 ?d0)"
    by (rule decodeHeader_at [where pre = "[]"]) (simp_all add: data off)
  have s: "readString (advance 1 ?d0) = Inr (sid, advance (4 + length sid) (advance 1 ?d0))"
    by (rule readString_at [where pre = "writeHeader SERVER_ERROR []"])
       (use assms in \<open>simp_all add: data off dec_data_advance dec_offset_advance length_writes\<close>)
  have e: "readString (advance (5 + length sid) ?d0) = Inr (err, advance (4 + length err) (advance (5 + length sid) ?d0))"
    by (rule readString_at [where pre = "writeHeader SERVER_ERROR [] @ writeString sid []" and post = "[]"])
       (use assms in \<open>simp_all add: data off dec_data_advance dec_offset_advance length_writes\<close>)
  have rest: "drop (9 + (length sid + length err)) (dec_data ?d0) = []"
    by (simp add: data length_writes)
  show ?thesis
    using rest by (simp add: h s e and_then_def advance_advance dec_data_advance dec_offset_advance off del: One_nat_def)
qed

lemma client_input_decoded:
  "decodeMessage (writeUInt32 ts (writeFloat v (writeFloat z (writeFloat y (writeFloat x
      (writeHeader CLIENT_INPUT []))))))
   = Inr (DecodedInput \<lparr>in_x = x, in_y = y, in_z = z, in_value = v, in_timestamp = ts\<rparr>)"
proof -
  let ?b = "writeUInt32 ts (writeFloat v (writeFloat z (writeFloat y (writeFloat x
      (writeHeader CLIENT_INPUT [])))))"
  let ?d0 = "ProtocolDecoder ?b"
  have data: "dec_data ?d0 = writeHeader CLIENT_INPUT [] @ writeFloat x [] @ writeFloat y []
       @ writeFloat z [] @ writeFloat v [] @ writeUInt32 ts []"
    unfolding ProtocolDecoder_def
    by (subst writeUInt32_flat, subst writeFloat_flat, subst writeFloat_flat [of z],
        subst writeFloat_flat [of y], subst writeFloat_flat [of x]) simp
  have off: "dec_offset ?d0 = 0" by (simp add: ProtocolDecoder_def)
  have h: "decodeHeader ?d0 = Inr (CLIENT_INPUT, advance 1 ?d0)"
    by (rule decodeHeader_at [where pre = "[]"]) (simp_all add: data off)
  have x: "readFloat (advance 1 ?d0) = Inr (x, advance 4 (advance 1 ?d0))"
    by (rule readFloat_at [where pre = "writeHeader CLIENT_INPUT []"])
       (simp_all add: data off dec_data_advance dec_offset_advance length_writes)
  have y: "readFloat (advance 5 ?d0) = Inr (y, advance 4 (advance 5 ?d0))"
    by (rule readFloat_at [where pre = "writeHeader CLIENT_INPUT [] @ writeFloat x []"])
       (simp_all add: data off dec_data_advance dec_offset_advance length_writes)
  have z: "readFloat (advance 9 ?d0) = Inr (z, advance 4 (advance 9 ?d0))"
    by (rule readFloat_at [where pre = "writeHeader CLIENT_INPUT [] @ writeFloat x [] @ writeFloat y []"])
       (simp_all add: data off dec_data_advance dec_offset_advance length_writes)
  have v: "readFloat (advance 13 ?d0) = Inr (v, advance 4 (advance 13 ?d0))"
    by (rule readFloat_at [where pre = "writeHeader CLIENT_INPUT [] @ writeFloat x [] @ writeFloat y []
          @ writeFloat z []"])
       (simp_all add: data off dec_data_advance dec_offset_advance length_writes)
  have ts: "readUInt32 (advance 17 ?d0) = Inr (ts, advance 4 (advance 17 ?d0))"
    by (rule readUInt32_at [where pre = "writeHeader CLIENT_INPUT [] @ writeFloat x [] @ writeFloat y []
          @ writeFloat z [] @ writeFloat v []" and post = "[]"])
       (simp_all add: data off dec_data_advance dec_offset_advance length_writes)
  have di: "decodeClientInput (advance 1 ?d0)
      = Inr (\<lparr>in_x = x, in_y = y, in_z = z, in_value = v, in_timestamp = ts\<rparr>, advance 21 ?d0)"
    by (simp add: decodeClientInput_def x y z v ts and_then_def advance_advance del: One_nat_def)
  show ?thesis
    unfolding decodeMessage_def h by (simp add: and_then_def di del: One_nat_def)
qed

lemma client_control_decoded:
  "decodeMessage (writeFloat p (push_back k (writeHeader CLIENT_CONTROL [])))
   = Inr (DecodedControl \<lparr>ctl_type = k, ctl_parameter = p\<rparr>)"
proof -
  let ?b = "writeFloat p (push_back k (writeHeader CLIENT_CONTROL []))"
  let ?d0 = "ProtocolDecoder ?b"
  have data: "dec_data ?d0 = writeHeader CLIENT_CONTROL [] @ [k] @ writeFloat p []"
    unfolding ProtocolDecoder_def
    by (subst writeFloat_flat) (simp add: push_back_def)
  have off: "dec_offset ?d0 = 0" by (simp add: ProtocolDecoder_def)
  have h: "decodeHeader ?d0 = Inr (CLIENT_CONTROL, advance 1 ?d0)"
    by (rule decodeHeader_at [where pre = "[]"]) (simp_all add: data off)
  have p: "readFloat (advance 1 (advance 1 ?d0)) = Inr (p, advance 4 (advance 1 (advance 1 ?d0)))"
    by (rule readFloat_at [where pre = "writeHeader CLIENT_CONTROL [] @ [k]" and post = "[]"])
       (simp_all add: data off dec_data_advance dec_offset_advance length_writes)
  have k: "byte_at (advance 1 ?d0) (dec_offset (advance 1 ?d0)) = Inr k"
    by (simp add: byte_at_def dec_size_def dec_data_advance dec_offset_advance data off
        length_writes nth_append)
  have sz: "\<not> dec_size (advance 1 ?d0) \<le> dec_offset (advance 1 ?d0)"
    by (simp add: dec_size_def dec_data_advance dec_offset_advance data off length_writes)
  have dc: "decodeClientControl (advance 1 ?d0)
      = Inr (\<lparr>ctl_type = k, ctl_parameter = p\<rparr>, advance 4 (advance 1 (advance 1 ?d0)))"
    unfolding decodeClientControl_def using sz by (simp add: k p and_then_def del: One_nat_def)
  have ne: "CLIENT_CONTROL \<noteq> CLIENT_INPUT"
    by (simp add: CLIENT_CONTROL_def CLIENT_INPUT_def)
  show ?thesis
    unfolding decodeMessage_def h
    by (simp add: and_then_def dc ne del: One_nat_def)
qed

subsection \<open>When the readers fail\<close>

lemma read_le32_fails_iff: "(\<exists>e. read_le32 d = Inl e) = (dec_size d < dec_offset d + 4)"
proof (cases "dec_offset d + 4 \<le> dec_size d")
  case True
  then show ?thesis by (simp add: read_le32_in_range)
next
  case False
  then show ?thesis
    by (auto simp add: read_le32_def byte_at_def and_then_def)
qed

lemma readFloat_Inl:
  "(readFloat d = Inl e) = (dec_size d < dec_offset d + 4 \<and> e = NotEnoughFloat)"
  by (cases "dec_offset d + 4 \<le> dec_size d")
     (auto simp add: readFloat_def read_le32_in_range and_then_def)

lemma readInt32_Inl:
  "(readInt32 d = Inl e) = (dec_size d < dec_offset d + 4 \<and> e = NotEnoughInt32)"
  by (cases "dec_offset d + 4 \<le> dec_size d")
     (auto simp add: readInt32_def read_le32_in_range and_then_def)

lemma readUInt32_Inl:
  "(readUInt32 d = Inl e) = (dec_size d < dec_offset d + 4 \<and> e = NotEnoughUInt32)"
  by (cases "dec_offset d + 4 \<le> dec_size d")
     (auto simp add: readUInt32_def read_le32_in_range and_then_def)

lemma readDouble_Inl:
  "(readDouble d = Inl e) = (dec_size d < dec_offset d + 8 \<and> e = NotEnoughDouble)"
  by (cases "dec_offset d + 8 \<le> dec_size d")
     (auto simp add: readDouble_def readDouble_loop_in_range and_then_def)

lemma decodeHeader_Inl:
  "(decodeHeader d = Inl e) = (dec_size d \<le> dec_offset d \<and> e = NotEnoughData)"
  by (auto simp add: decodeHeader_def byte_at_def and_then_def)

lemma readFloat_Inr:
  "readFloat d = Inr (v, d') \<Longrightarrow> d' = advance 4 d \<and> dec_offset d' \<le> dec_size d'"
  by (cases "dec_offset d + 4 \<le> dec_size d")
     (auto simp add: readFloat_def read_le32_in_range and_then_def advance_def dec_size_def)

lemma readUInt32_Inr:
  "readUInt32 d = Inr (v, d') \<Longrightarrow> d' = advance 4 d \<and> dec_offset d' \<le> dec_size d'"
  by (cases "dec_offset d + 4 \<le> dec_size d")
     (auto simp add: readUInt32_def read_le32_in_range and_then_def advance_def dec_size_def)

lemma readFloat_cases:
  "readFloat d = (if dec_size d < dec_offset d + 4 then Inl NotEnoughFloat
                  else Inr (projr (read_le32 d), advance 4 d))"
  by (cases "dec_offset d + 4 \<le> dec_size d")
     (auto simp add: readFloat_def read_le32_in_range and_then_def)

lemma readUInt32_cases:
  "readUInt32 d = (if dec_size d < dec_offset d + 4 then Inl NotEnoughUInt32
                  else Inr (projr (read_le32 d), advance 4 d))"
  by (cases "dec_offset d + 4 \<le> dec_size d")
     (auto simp add: readUInt32_def read_le32_in_range and_then_def)

lemma dec_size_advance: "dec_size (advance n d) = dec_size d"
  by (simp add: dec_size_def advance_def)

lemma readString_Inl:
  "(readString d = Inl e) =
     (dec_size d < dec_offset d + 4 \<and> e = NotEnoughUInt32
      \<or> dec_offset d + 4 \<le> dec_size d
        \<and> dec_size d < dec_offset d + 4 + unat (projr (read_le32 d)) \<and> e = StringExceedsBuffer)"
  by (auto simp add: readString_def readUInt32_cases and_then_def dec_size_advance
      dec_offset_advance)

lemma decodeClientInput_Inl:
  "(decodeClientInput d = Inl e) =
     (dec_size d < dec_offset d + 16 \<and> e = NotEnoughFloat
      \<or> dec_offset d + 16 \<le> dec_size d \<and> dec_size d < dec_offset d + 20 \<and> e = NotEnoughUInt32)"
  by (auto simp add: decodeClientInput_def readFloat_cases readUInt32_cases and_then_def
      dec_size_advance dec_offset_advance)

lemma decodeClientControl_Inl:
  "(decodeClientControl d = Inl e) =
     (dec_size d \<le> dec_offset d \<and> e = NotEnoughControl
      \<or> dec_offset d < dec_size d \<and> dec_size d < dec_offset d + 5 \<and> e = NotEnoughFloat)"
  by (auto simp add: decodeClientControl_def readFloat_cases byte_at_def and_then_def
      dec_size_advance dec_offset_advance)

lemma what_distinct:
  "distinct (map what [NotEnoughData, StringExceedsBuffer, NotEnoughFloat, NotEnoughDouble,
     NotEnoughInt32, NotEnoughUInt32, NotEnoughControl])"
  by simp

lemma dec_size_ProtocolDecoder: "dec_size (advance n (ProtocolDecoder bs)) = length bs"
  by (simp add: dec_size_def advance_def ProtocolDecoder_def)

lemma dec_offset_ProtocolDecoder: "dec_offset (advance n (ProtocolDecoder bs)) = n"
  by (simp add: advance_def ProtocolDecoder_def)

lemma decodeMessage_Inl:
  "(decodeMessage bytes = Inl e) =
     (bytes = [] \<and> e = NotEnoughData
      \<or> bytes \<noteq> [] \<and> hd bytes = CLIENT_INPUT
          \<and> (length bytes < 17 \<and> e = NotEnoughFloat
             \<or> 17 \<le> length bytes \<and> length bytes < 21 \<and> e = NotEnoughUInt32)
      \<or> bytes \<noteq> [] \<and> hd bytes = CLIENT_CONTROL
          \<and> (length bytes < 2 \<and> e = NotEnoughControl
             \<or> 2 \<le> length bytes \<and> length bytes < 6 \<and> e = NotEnoughFloat))"
proof (cases bytes)
  case Nil
  then show ?thesis
    by (auto simp add: decodeMessage_def decodeHeader_def ProtocolDecoder_def dec_size_def and_then_def)
next
  case (Cons b bs)
  let ?d = "ProtocolDecoder bytes"
  have h: "decodeHeader ?d = Inr (b, advance 1 ?d)"
    using Cons by (simp add: decodeHeader_def ProtocolDecoder_def dec_size_def byte_at_def and_then_def)
  have ne: "CLIENT_CONTROL \<noteq> CLIENT_INPUT"
    by (simp add: CLIENT_CONTROL_def CLIENT_INPUT_def)
  have i: "(and_then (decodeClientInput (advance 1 ?d)) (\<lambda>(input, d'). Inr (DecodedInput input)) = Inl e)
      = (decodeClientInput (advance 1 ?d) = Inl e)"
    by (cases "decodeClientInput (advance 1 ?d)") (auto simp add: and_then_def)
  have c: "(and_then (decodeClientControl (advance 1 ?d)) (\<lambda>(control, d'). Inr (DecodedControl control)) = Inl e)
      = (decodeClientControl (advance 1 ?d) = Inl e)"
    by (cases "decodeClientControl (advance 1 ?d)") (auto simp add: and_then_def)
  consider "b = CLIENT_INPUT" | "b = CLIENT_CONTROL" | "b \<noteq> CLIENT_INPUT" "b \<noteq> CLIENT_CONTROL"
    by blast
  then show ?thesis
  proof cases
    case 1
    have "(decodeMessage bytes = Inl e) = (decodeClientInput (advance 1 ?d) = Inl e)"
      unfolding decodeMessage_def h using 1 i by (simp add: and_then_def)
    then show ?thesis
      using Cons 1 ne by (auto simp add: decodeClientInput_Inl dec_size_ProtocolDecoder dec_offset_ProtocolDecoder)
  next
    case 2
    have "(decodeMessage bytes = Inl e) = (decodeClientControl (advance 1 ?d) = Inl e)"
      unfolding decodeMessage_def h using 2 c ne by (simp add: and_then_def)
    then show ?thesis
      using Cons 2 ne by (auto simp add: decodeClientControl_Inl dec_size_ProtocolDecoder dec_offset_ProtocolDecoder Suc_le_eq)
  next
    case 3
    have "decodeMessage bytes = Inr (UnknownMessageType b)"
      unfolding decodeMessage_def h using 3 by (simp add: and_then_def)
    then show ?thesis
      using Cons 3 by simp
  qed
qed

subsection \<open>Claims about the codec\<close>

text \<open>
  Claim C1, as amended. The encoder writes the three server messages only and the
  decoder has whole-message functions for the two client messages only, so no message
  variant passes through both an \<open>encode\<close> and a \<open>decode\<close> of the program. What holds is
  the round trip of the fields: for a session id, an error text and a payload shorter
  than \<open>2^32\<close> bytes (empty ones included), the decoder's header and field readers,
  applied in layout order to the output of \<open>encodeFrame\<close>, \<open>encodeState\<close> or
  \<open>encodeError\<close>, return the tag and every field that was encoded and leave exactly the
  payload (or nothing) unread; and a client message laid out with the encoder's field
  writers (tag, then \<open>x y z value timestamp\<close>, or tag, kind byte, parameter) is decoded
  by the server to the same field values.
\<close>

theorem codec_fields_roundtrip:
  assumes "length sid < 2 ^ 32" "length err < 2 ^ 32" "length payload < 2 ^ 32"
  shows "and_then (decodeHeader (ProtocolDecoder (encodeFrame sid payload t buf))) (\<lambda>(tag, d1).
         and_then (readString d1) (\<lambda>(s, d2).
         and_then (readDouble d2) (\<lambda>(t', d3).
         and_then (readUInt32 d3) (\<lambda>(n, d4).
           Inr (tag, s, t', unat n, drop (dec_offset d4) (dec_data d4))))))
         = Inr (SERVER_FRAME, sid, t, length payload, payload)
     \<and> and_then (decodeHeader (ProtocolDecoder (encodeState sid time w h dp buf))) (\<lambda>(tag, d1).
         and_then (readString d1) (\<lambda>(s, d2).
         and_then (readFloat d2) (\<lambda>(t', d3).
         and_then (readInt32 d3) (\<lambda>(w', d4).
         and_then (readInt32 d4) (\<lambda>(h', d5).
         and_then (readInt32 d5) (\<lambda>(dp', d6).
           Inr (tag, s, t', w', h', dp', drop (dec_offset d6) (dec_data d6))))))))
         = Inr (SERVER_STATE, sid, time, w, h, dp, [])
     \<and> and_then (decodeHeader (ProtocolDecoder (encodeError sid err buf))) (\<lambda>(tag, d1).
         and_then (readString d1) (\<lambda>(s, d2).
         and_then (readString d2) (\<lambda>(e, d3).
           Inr (tag, s, e, drop (dec_offset d3) (dec_data d3)))))
         = Inr (SERVER_ERROR, sid, err, [])
     \<and> decodeMessage (writeUInt32 ts (writeFloat v (writeFloat z (writeFloat y (writeFloat x
           (writeHeader CLIENT_INPUT []))))))
         = Inr (DecodedInput \<lparr>in_x = x, in_y = y, in_z = z, in_value = v, in_timestamp = ts\<rparr>)
     \<and> decodeMessage (writeFloat p (push_back k (writeHeader CLIENT_CONTROL [])))
         = Inr (DecodedControl \<lparr>ctl_type = k, ctl_parameter = p\<rparr>)"
  using frame_fields [OF assms(1,3)] state_fields [OF assms(1)] error_fields [OF assms(1,2)]
    client_input_decoded client_control_decoded
  by (intro conjI)

text \<open>The theorem at an empty session id and an empty payload.\<close>

theorem codec_fields_roundtrip_witness:
  "length '''' < (2::nat) ^ 32 \<and> length ''no solver'' < (2::nat) ^ 32 \<and> length ([] :: u8 list) < 2 ^ 32
   \<and> and_then (decodeHeader (ProtocolDecoder (encodeFrame '''' [] 7 []))) (\<lambda>(tag, d1).
         and_then (readString d1) (\<lambda>(s, d2).
         and_then (readDouble d2) (\<lambda>(t', d3).
         and_then (readUInt32 d3) (\<lambda>(n, d4).
           Inr (tag, s, t', unat n, drop (dec_offset d4) (dec_data d4))))))
         = Inr (SERVER_FRAME, '''', 7, 0, [])
   \<and> and_then (decodeHeader (ProtocolDecoder (encodeError '''' ''no solver'' []))) (\<lambda>(tag, d1).
         and_then (readString d1) (\<lambda>(s, d2).
         and_then (readString d2) (\<lambda>(e, d3).
           Inr (tag, s, e, drop (dec_offset d3) (dec_data d3)))))
         = Inr (SERVER_ERROR, '''', ''no solver'', [])"
proof -
  have h: "length '''' < (2::nat) ^ 32" "length ''no solver'' < (2::nat) ^ 32"
    "length ([] :: u8 list) < 2 ^ 32"
    by simp_all
  note t = codec_fields_roundtrip [OF h, where t = 7 and buf = "[]"]
  show ?thesis
    using h t by simp
qed

text \<open>
  The claim as stated fails: the server's decoding of the bytes of an encoded
  \<open>ServerFrame\<close>, \<open>ServerState\<close> or \<open>ServerError\<close> reaches the \<open>default\<close> case and yields
  "unknown message type", not the message.
\<close>

theorem encoded_server_message_not_decoded:
  "decodeMessage (encodeFrame ''s1'' [1, 2, 3] 0 []) = Inr (UnknownMessageType SERVER_FRAME)
   \<and> decodeMessage (encodeState ''s1'' 0 128 128 128 []) = Inr (UnknownMessageType SERVER_STATE)
   \<and> decodeMessage (encodeError ''s1'' ''no solver'' []) = Inr (UnknownMessageType SERVER_ERROR)"
  by code_simp

text \<open>
  Claim C2, as amended. With \<open>size\<close> the buffer length and \<open>offset\<close> the cursor, a read
  fails exactly in these cases, and with the error shown: the header when
  \<open>size \<le> offset\<close>; a float, int32 or uint32 when fewer than 4 bytes remain; a double
  when fewer than 8 remain; a string when fewer than 4 bytes remain for its length
  (reported as a uint32 failure) or when the declared length exceeds what remains after
  it; the control kind byte when \<open>size \<le> offset\<close>. A client input fails exactly when
  fewer than 20 bytes follow the tag, a client control exactly when fewer than 5 do.
  No read ends in \<open>OutOfBoundsRead\<close>: nothing is read past the end of the buffer. The
  messages of the seven errors are pairwise different, so a failure names the kind of
  read that failed; it does not name the message field.
\<close>

theorem decode_failures:
  "(decodeHeader d = Inl e) = (dec_size d \<le> dec_offset d \<and> e = NotEnoughData)
   \<and> (readFloat d = Inl e) = (dec_size d < dec_offset d + 4 \<and> e = NotEnoughFloat)
   \<and> (readInt32 d = Inl e) = (dec_size d < dec_offset d + 4 \<and> e = NotEnoughInt32)
   \<and> (readUInt32 d = Inl e) = (dec_size d < dec_offset d + 4 \<and> e = NotEnoughUInt32)
   \<and> (readDouble d = Inl e) = (dec_size d < dec_offset d + 8 \<and> e = NotEnoughDouble)
   \<and> (readString d = Inl e) =
       (dec_size d < dec_offset d + 4 \<and> e = NotEnoughUInt32
        \<or> dec_offset d + 4 \<le> dec_size d
          \<and> dec_size d < dec_offset d + 4 + unat (projr (read_le32 d)) \<and> e = StringExceedsBuffer)
   \<and> (decodeClientInput d = Inl e) =
       (dec_size d < dec_offset d + 16 \<and> e = NotEnoughFloat
        \<or> dec_offset d + 16 \<le> dec_size d \<and> dec_size d < dec_offset d + 20 \<and> e = NotEnoughUInt32)
   \<and> (decodeClientControl d = Inl e) =
       (dec_size d \<le> dec_offset d \<and> e = NotEnoughControl
        \<or> dec_offset d < dec_size d \<and> dec_size d < dec_offset d + 5 \<and> e = NotEnoughFloat)
   \<and> (decodeMessage bytes = Inl e) =
       (bytes = [] \<and> e = NotEnoughData
        \<or> bytes \<noteq> [] \<and> hd bytes = CLIENT_INPUT
            \<and> (length bytes < 17 \<and> e = NotEnoughFloat
               \<or> 17 \<le> length bytes \<and> length bytes < 21 \<and> e = NotEnoughUInt32)
        \<or> bytes \<noteq> [] \<and> hd bytes = CLIENT_CONTROL
            \<and> (length bytes < 2 \<and> e = NotEnoughControl
               \<or> 2 \<le> length bytes \<and> length bytes < 6 \<and> e = NotEnoughFloat))
   \<and> distinct (map what [NotEnoughData, StringExceedsBuffer, NotEnoughFloat, NotEnoughDouble,
        NotEnoughInt32, NotEnoughUInt32, NotEnoughControl])
   \<and> what OutOfBoundsRead = None"
  by (intro conjI decodeHeader_Inl readFloat_Inl readInt32_Inl readUInt32_Inl readDouble_Inl
      readString_Inl decodeClientInput_Inl decodeClientControl_Inl decodeMessage_Inl what_distinct
      what.simps)

text \<open>The theorem at the truncated client input \<open>[0x01, 0x00]\<close>.\<close>

theorem decode_failures_witness:
  "decodeMessage [0x01, 0x00] = Inl NotEnoughFloat
   \<and> what NotEnoughFloat = Some ''Invalid message: not enough data for float''"
proof -
  note m = decode_failures [where bytes = "[0x01, 0x00]" and e = NotEnoughFloat,
      THEN conjunct2, THEN conjunct2, THEN conjunct2, THEN conjunct2, THEN conjunct2,
      THEN conjunct2, THEN conjunct2, THEN conjunct2, THEN conjunct1]
  have "decodeMessage [0x01, 0x00] = Inl NotEnoughFloat"
    by (subst m) (simp add: CLIENT_INPUT_def)
  then show ?thesis by simp
qed

text \<open>
  The claim as stated fails in its last part, and its list of failures misses one. A
  client input with no byte after the tag fails on \<open>x\<close>; one with four bytes after the
  tag reads \<open>x\<close> and fails on \<open>y\<close>; both raise the same error with the same message,
  which names neither field. A client control with no byte after the tag fails on the
  one-byte kind, which is neither a string nor a 4- or 8-byte field.
\<close>

theorem failure_names_no_field:
  "decodeMessage [0x01] = Inl NotEnoughFloat
   \<and> readFloat (advance 1 (ProtocolDecoder [0x01, 0, 0, 0, 0]))
       = Inr (0, advance 4 (advance 1 (ProtocolDecoder [0x01, 0, 0, 0, 0])))
   \<and> decodeMessage [0x01, 0, 0, 0, 0] = Inl NotEnoughFloat
   \<and> what NotEnoughFloat = Some ''Invalid message: not enough data for float''
   \<and> decodeMessage [0x02] = Inl NotEnoughControl
   \<and> what NotEnoughControl = Some ''Invalid message: not enough data for control''"
  by code_simp

section \<open>Properties of a session\<close>

lemma length_float_bytes: "length (float_bytes f) = 4"
  by (simp add: float_bytes_def)

lemma length_floats_bytes: "length (floats_bytes fs) = 4 * length fs"
  by (induction fs) (simp_all add: floats_bytes_def length_float_bytes)


lemma texture_size_default: "texture_size 128 128 128 = 6291456"
  by (simp add: texture_size_def)

lemma texture_size_unit: "texture_size 1 1 1 = 3"
  by (simp add: texture_size_def)




lemma length_getElectricField:
  "length (getElectricField sim) = texture_size (width sim) (height sim) (depth sim)"
  by (simp add: getElectricField_def)

lemma length_getMagneticField:
  "length (getMagneticField sim) = texture_size (width sim) (height sim) (depth sim)"
  by (simp add: getMagneticField_def)


lemma FDTD3D_step_dims:
  "width (FDTD3D_step sim) = width sim \<and> height (FDTD3D_step sim) = height sim
   \<and> depth (FDTD3D_step sim) = depth sim \<and> time_steps (FDTD3D_step sim) = time_steps sim + 1"
  by (simp add: FDTD3D_step_def swapBuffers_def)

text \<open>The two \<open>memcpy\<close> calls fill the resized vector completely, whatever it held.\<close>

lemma frame_copy:
  assumes "length e = length m"
  shows "memcpy_at (memcpy_at (resize (length e * 4 * 2) buffer) 0 (floats_bytes e)) (length e * 4)
           (floats_bytes m) = floats_bytes e @ floats_bytes m"
proof -
  have r: "length (resize (length e * 4 * 2) buffer) = length e * 4 * 2"
    by (simp add: resize_def)
  have 1: "memcpy_at (resize (length e * 4 * 2) buffer) 0 (floats_bytes e)
      = floats_bytes e @ drop (4 * length e) (resize (length e * 4 * 2) buffer)"
    by (simp add: memcpy_at_def length_floats_bytes)
  show ?thesis
    unfolding 1 using assms r
    by (simp add: memcpy_at_def length_floats_bytes)
qed

lemma getFrameData_pending:
  assumes "simulation s = Some sim" "hasNewFrame s"
  shows "Session_getFrameData buffer s =
     (floats_bytes (getElectricField sim) @ floats_bytes (getMagneticField sim),
      s\<lparr>electricFieldBuffer := getElectricField sim, magneticFieldBuffer := getMagneticField sim\<rparr>)"
proof -
  have l: "length (getElectricField sim) = length (getMagneticField sim)"
    by (simp add: length_getElectricField length_getMagneticField)
  show ?thesis
    using assms frame_copy [OF l, of buffer] by (simp add: Session_getFrameData_def Let_def)
qed


lemma update_steps:
  assumes "needsUpdate s" "simulation s = Some sim"
  shows "Session_update now s =
     s\<lparr>simulation := Some (FDTD3D_step sim), hasNewFrame := True, lastActivity := now,
       needsUpdate := False\<rparr>"
  using assms by (simp add: Session_update_def Session_step_def)

lemma update_uninitialized:
  assumes "needsUpdate s" "simulation s = None"
  shows "Session_update now s = s\<lparr>needsUpdate := False\<rparr>"
  using assms by (simp add: Session_update_def Session_step_def)

lemma update_idle:
  assumes "\<not> needsUpdate s"
  shows "Session_update now s = s"
  using assms by (simp add: Session_update_def)

lemma Session_initialize_default:
  "Session_initialize 128 128 128 (GpuReady mem) (Session_ctor sid now) =
     Inr \<lparr>sessionId = sid, simulation = Some \<lparr>width = 128, height = 128, depth = 128, time_steps = 0,
               electricField_d = mem 0, electricFieldNext_d = mem 1,
               magneticField_d = mem 2, magneticFieldNext_d = mem 3,
               sourceField_d = mem 4, sourceFieldNext_d = mem 5\<rparr>,
             hasNewFrame = False, needsUpdate = True, lastActivity = now,
             electricFieldBuffer = replicate (128 * 128 * 128 * 3) 0,
             magneticFieldBuffer = replicate (128 * 128 * 128 * 3) 0\<rparr>"
  by (simp add: Session_initialize_def FDTD3D_initialize_def FDTD3D_ctor_def gpu_memory_def
        Session_ctor_def resize_def texture_size_default Let_def)

lemma Session_initialize_failed:
  "Session_initialize w h d (GpuFailed junk) s =
     Inl (SolverInitFailed, s\<lparr>simulation := Some (FDTD3D_ctor w h d junk)\<rparr>)"
  by (simp add: Session_initialize_def FDTD3D_initialize_def gpu_memory_def Let_def)

text \<open>When \<open>initialize\<close> throws, the unwinding of \<open>createSession\<close> destroys a session
  that holds a solver.\<close>

lemma createSession_failed: "createSession ws sid now (GpuFailed junk) m = Inl InvalidFree"
  by (simp add: createSession_def Session_initialize_failed Session_dtor_def and_then_def)

lemma createSession_ready:
  assumes "map_of (sessions m) sid = None"
  shows "createSession ws sid now (GpuReady mem) m =
     Inr (sid, m\<lparr>sessions := AList.update sid
           \<lparr>sessionId = sid, simulation = Some \<lparr>width = 128, height = 128, depth = 128, time_steps = 0,
               electricField_d = mem 0, electricFieldNext_d = mem 1,
               magneticField_d = mem 2, magneticFieldNext_d = mem 3,
               sourceField_d = mem 4, sourceFieldNext_d = mem 5\<rparr>,
             hasNewFrame = False, needsUpdate = True, lastActivity = now,
             electricFieldBuffer = replicate (128 * 128 * 128 * 3) 0,
             magneticFieldBuffer = replicate (128 * 128 * 128 * 3) 0\<rparr> (sessions m),
       connectionToSession := AList.update ws sid (connectionToSession m),
       sessionToConnection := AList.update sid ws (sessionToConnection m)\<rparr>)"
  using assms
  by (simp add: createSession_def Session_initialize_default sessions_assign_def and_then_def)

text \<open>A \<open>createSession\<close> that returns has initialised the solver and has met either an
  unused id or a stored session without solver; the maps it leaves are the three
  assignments.\<close>

lemma createSession_returns:
  assumes "createSession ws sid t0 g m = Inr (sid', m')"
  shows "\<exists>mem. g = GpuReady mem \<and> sid' = sid
    \<and> (case map_of (sessions m) sid of None \<Rightarrow> True | Some old \<Rightarrow> simulation old = None)
    \<and> m' = m\<lparr>sessions := AList.update sid
           \<lparr>sessionId = sid, simulation = Some \<lparr>width = 128, height = 128, depth = 128, time_steps = 0,
               electricField_d = mem 0, electricFieldNext_d = mem 1,
               magneticField_d = mem 2, magneticFieldNext_d = mem 3,
               sourceField_d = mem 4, sourceFieldNext_d = mem 5\<rparr>,
             hasNewFrame = False, needsUpdate = True, lastActivity = t0,
             electricFieldBuffer = replicate (128 * 128 * 128 * 3) 0,
             magneticFieldBuffer = replicate (128 * 128 * 128 * 3) 0\<rparr> (sessions m),
       connectionToSession := AList.update ws sid (connectionToSession m),
       sessionToConnection := AList.update sid ws (sessionToConnection m)\<rparr>"
proof (cases g)
  case (GpuFailed junk)
  with assms show ?thesis
    by (simp add: createSession_failed)
next
  case (GpuReady mem)
  with assms show ?thesis
    by (auto simp add: createSession_def Session_initialize_default sessions_assign_def
          and_then_def Session_dtor_def split: option.splits)
qed

lemma createSession_Inr:
  assumes "createSession ws sid t0 g m = Inr (sid', m')"
  shows "\<exists>mem. g = GpuReady mem \<and> sid' = sid
    \<and> map_of (sessions m') sid =
        Some \<lparr>sessionId = sid, simulation = Some \<lparr>width = 128, height = 128, depth = 128, time_steps = 0,
               electricField_d = mem 0, electricFieldNext_d = mem 1,
               magneticField_d = mem 2, magneticFieldNext_d = mem 3,
               sourceField_d = mem 4, sourceFieldNext_d = mem 5\<rparr>,
             hasNewFrame = False, needsUpdate = True, lastActivity = t0,
             electricFieldBuffer = replicate (128 * 128 * 128 * 3) 0,
             magneticFieldBuffer = replicate (128 * 128 * 128 * 3) 0\<rparr>"
proof -
  from createSession_returns [OF assms] obtain mem where
    g: "g = GpuReady mem" "sid' = sid"
    and m': "m' = m\<lparr>sessions := AList.update sid
           \<lparr>sessionId = sid, simulation = Some \<lparr>width = 128, height = 128, depth = 128, time_steps = 0,
               electricField_d = mem 0, electricFieldNext_d = mem 1,
               magneticField_d = mem 2, magneticFieldNext_d = mem 3,
               sourceField_d = mem 4, sourceFieldNext_d = mem 5\<rparr>,
             hasNewFrame = False, needsUpdate = True, lastActivity = t0,
             electricFieldBuffer = replicate (128 * 128 * 128 * 3) 0,
             magneticFieldBuffer = replicate (128 * 128 * 128 * 3) 0\<rparr> (sessions m),
       connectionToSession := AList.update ws sid (connectionToSession m),
       sessionToConnection := AList.update sid ws (sessionToConnection m)\<rparr>"
    by blast
  show ?thesis
    using g by (simp add: m' update_conv')
qed

lemma exec_session_op_needsUpdate:
  "needsUpdate (exec_session_op op s) = (needsUpdate s \<and> \<not> is_update op)"
  by (cases op)
     (simp_all add: Session_handleInput_def Session_getFrameData_def Session_markFrameSent_def
        Session_step_def Session_update_def Let_def split: option.split)

lemma run_session_ops_needsUpdate:
  "needsUpdate (run_session_ops ops s) = (needsUpdate s \<and> \<not> list_ex is_update ops)"
  by (induction ops arbitrary: s) (auto simp add: exec_session_op_needsUpdate)

lemma exec_session_op_no_solver:
  "simulation s = None \<Longrightarrow> simulation (exec_session_op op s) = None"
  by (cases op)
     (simp_all add: Session_handleInput_def Session_getFrameData_def Session_markFrameSent_def
        Session_step_def Session_update_def)

lemma run_session_ops_no_solver:
  "simulation s = None \<Longrightarrow> simulation (run_session_ops ops s) = None"
  by (induction ops arbitrary: s) (simp_all add: exec_session_op_no_solver)

lemma exec_session_op_steps:
  assumes "simulation s = Some sim" "\<not> is_step op"
  shows "\<exists>sim'. simulation (exec_session_op op s) = Some sim'
     \<and> time_steps sim' = time_steps sim + (if needsUpdate s \<and> is_update op then 1 else 0)"
  using assms
  by (cases op)
     (simp_all add: Session_handleInput_def Session_getFrameData_def Session_markFrameSent_def
        Session_step_def Session_update_def Let_def FDTD3D_addSource_def swapBuffers_def
        FDTD3D_step_def)

lemma run_session_ops_steps:
  assumes "simulation s = Some sim" "\<not> list_ex is_step ops"
  shows "map_option time_steps (simulation (run_session_ops ops s))
     = Some (time_steps sim + (if needsUpdate s \<and> list_ex is_update ops then 1 else 0))"
  using assms
proof (induction ops arbitrary: s sim)
  case Nil
  then show ?case by simp
next
  case (Cons op ops)
  from Cons.prems have ns: "\<not> is_step op" and nss: "\<not> list_ex is_step ops" by simp_all
  from exec_session_op_steps [OF Cons.prems(1) ns] obtain sim' where
    s': "simulation (exec_session_op op s) = Some sim'"
    and t': "time_steps sim' = time_steps sim + (if needsUpdate s \<and> is_update op then 1 else 0)"
    by blast
  show ?case
    using Cons.IH [OF s' nss] t' by (auto simp add: exec_session_op_needsUpdate)
qed

subsection \<open>Claims about a session\<close>




text \<open>
  Claim C5, as amended. \<open>update\<close> is conditional on \<open>needsUpdate\<close>. If the flag is set
  and the solver is initialised, \<open>update\<close> performs exactly one solver step, sets
  \<open>hasNewFrame\<close>, sets \<open>lastActivity\<close> to the clock reading and clears the flag, and
  changes nothing else. If the flag is set and the solver is not initialised, \<open>update\<close>
  only clears the flag. If the flag is clear, \<open>update\<close> changes nothing.
\<close>

theorem session_update_conditional:
  "(needsUpdate s \<and> simulation s = Some sim \<longrightarrow>
      Session_update now s =
        s\<lparr>simulation := Some (FDTD3D_step sim), hasNewFrame := True, lastActivity := now,
          needsUpdate := False\<rparr>
      \<and> time_steps (FDTD3D_step sim) = time_steps sim + 1)
   \<and> (needsUpdate s \<and> simulation s = None \<longrightarrow> Session_update now s = s\<lparr>needsUpdate := False\<rparr>)
   \<and> (\<not> needsUpdate s \<longrightarrow> Session_update now s = s)"
  by (simp add: update_steps update_uninitialized update_idle FDTD3D_step_dims)

text \<open>The theorem at a session with a solver, at one without, and at one already updated.\<close>

theorem session_update_conditional_witness:
  "(let sim = \<lparr>width = 1, height = 1, depth = 1, time_steps = 0,
               electricField_d = zero_memory 0, electricFieldNext_d = zero_memory 1,
               magneticField_d = zero_memory 2, magneticFieldNext_d = zero_memory 3,
               sourceField_d = zero_memory 4, sourceFieldNext_d = zero_memory 5\<rparr>;
        s = (Session_ctor ''a'' 0)\<lparr>simulation := Some sim\<rparr>;
        s' = (Session_ctor ''a'' 0)\<lparr>needsUpdate := False\<rparr>
    in needsUpdate s \<and> simulation s = Some sim
       \<and> Session_update 5 s = s\<lparr>simulation := Some (FDTD3D_step sim), hasNewFrame := True,
            lastActivity := 5, needsUpdate := False\<rparr>
       \<and> time_steps (FDTD3D_step sim) = 1
       \<and> needsUpdate (Session_ctor ''a'' 0) \<and> simulation (Session_ctor ''a'' 0) = None
       \<and> Session_update 5 (Session_ctor ''a'' 0) = s'
       \<and> \<not> needsUpdate s' \<and> Session_update 5 s' = s')"
proof -
  let ?sim = "\<lparr>width = 1, height = 1, depth = 1, time_steps = 0,
               electricField_d = zero_memory 0, electricFieldNext_d = zero_memory 1,
               magneticField_d = zero_memory 2, magneticFieldNext_d = zero_memory 3,
               sourceField_d = zero_memory 4, sourceFieldNext_d = zero_memory 5\<rparr> :: FDTD3D"
  let ?s = "(Session_ctor ''a'' 0)\<lparr>simulation := Some ?sim\<rparr>"
  let ?s' = "(Session_ctor ''a'' 0)\<lparr>needsUpdate := False\<rparr>"
  have h1: "needsUpdate ?s \<and> simulation ?s = Some ?sim"
    and h2: "needsUpdate (Session_ctor ''a'' 0) \<and> simulation (Session_ctor ''a'' 0) = None"
    and h3: "\<not> needsUpdate ?s'"
    by (simp_all add: Session_ctor_def)
  have c1: "Session_update 5 ?s = ?s\<lparr>simulation := Some (FDTD3D_step ?sim), hasNewFrame := True,
            lastActivity := 5, needsUpdate := False\<rparr>
      \<and> time_steps (FDTD3D_step ?sim) = time_steps ?sim + 1"
    by (rule session_update_conditional [THEN conjunct1, THEN mp, OF h1])
  have c2: "Session_update 5 (Session_ctor ''a'' 0) = ?s'"
    by (rule session_update_conditional [THEN conjunct2, THEN conjunct1, THEN mp, OF h2])
  have c3: "Session_update 5 ?s' = ?s'"
    by (rule session_update_conditional [THEN conjunct2, THEN conjunct2, THEN mp, OF h3])
  have t: "time_steps (FDTD3D_step ?sim) = 1"
    using c1 by simp
  show ?thesis
    unfolding Let_def by (intro conjI) (use h1 h2 h3 c1 c2 c3 t in \<open>simp_all only: simp_thms\<close>)
qed

text \<open>
  The claim as stated fails for a session whose solver was never initialised: its
  \<open>needsUpdate\<close> is set, and \<open>update\<close> performs no step, leaves \<open>hasNewFrame\<close> unset
  and does not refresh \<open>lastActivity\<close>.
\<close>

theorem update_without_solver:
  "needsUpdate (Session_ctor ''a'' 0)
   \<and> \<not> hasNewFrame (Session_update 5 (Session_ctor ''a'' 0))
   \<and> lastActivity (Session_update 5 (Session_ctor ''a'' 0)) \<noteq> 5
   \<and> simulation (Session_update 5 (Session_ctor ''a'' 0)) = None"
  by (simp add: Session_ctor_def Session_update_def Session_step_def)

text \<open>
  Claim C7. For the session that \<open>createSession\<close> stores under the id it returns (grid
  128 x 128 x 128), the frame payload after the step of \<open>update\<close> is the bytes of the
  electric field snapshot followed by the bytes of the magnetic field snapshot; each
  snapshot has \<open>128 * 128 * 128 * 3\<close> floats of 4 bytes, and the payload has
  \<open>128 * 128 * 128 * 3 * 4 * 2\<close> bytes.
\<close>

theorem default_grid_frame:
  assumes "createSession ws sid t0 g m = Inr (sid', m')"
    and "map_of (sessions m') sid' = Some s"
  shows "case simulation (Session_update now s) of
           None \<Rightarrow> False
         | Some sim \<Rightarrow>
             fst (Session_getFrameData buffer (Session_update now s))
               = floats_bytes (getElectricField sim) @ floats_bytes (getMagneticField sim)
           \<and> length (getElectricField sim) = 128 * 128 * 128 * 3
           \<and> length (getMagneticField sim) = 128 * 128 * 128 * 3
           \<and> length (floats_bytes (getElectricField sim)) = 128 * 128 * 128 * 3 * 4
           \<and> length (floats_bytes (getMagneticField sim)) = 128 * 128 * 128 * 3 * 4
           \<and> length (fst (Session_getFrameData buffer (Session_update now s)))
               = 128 * 128 * 128 * 3 * 4 * 2"
proof -
  from createSession_Inr [OF assms(1)] assms(2) obtain sim0 where
    s: "simulation s = Some sim0" "needsUpdate s"
    and d: "width sim0 = 128" "height sim0 = 128" "depth sim0 = 128"
    by auto
  let ?sim = "FDTD3D_step sim0"
  have u: "Session_update now s = s\<lparr>simulation := Some ?sim, hasNewFrame := True,
      lastActivity := now, needsUpdate := False\<rparr>"
    using s by (simp add: update_steps)
  have sim: "simulation (Session_update now s) = Some ?sim" and new: "hasNewFrame (Session_update now s)"
    by (simp_all add: u)
  have g: "fst (Session_getFrameData buffer (Session_update now s))
      = floats_bytes (getElectricField ?sim) @ floats_bytes (getMagneticField ?sim)"
    by (simp add: getFrameData_pending [OF sim new])
  have le: "length (getElectricField ?sim) = 128 * 128 * 128 * 3"
    and lm: "length (getMagneticField ?sim) = 128 * 128 * 128 * 3"
    using d
    by (simp_all add: length_getElectricField length_getMagneticField FDTD3D_step_dims
          texture_size_default)
  show ?thesis
    unfolding sim g using le lm by (simp add: length_floats_bytes)
qed

text \<open>The theorem at the first session of an empty registry.\<close>

theorem default_grid_frame_witness:
  "(let S = \<lparr>sessionId = ''a'', simulation = Some \<lparr>width = 128, height = 128, depth = 128, time_steps = 0,
               electricField_d = zero_memory 0, electricFieldNext_d = zero_memory 1,
               magneticField_d = zero_memory 2, magneticFieldNext_d = zero_memory 3,
               sourceField_d = zero_memory 4, sourceFieldNext_d = zero_memory 5\<rparr>,
             hasNewFrame = False, needsUpdate = True, lastActivity = 0,
             electricFieldBuffer = replicate 6291456 0,
             magneticFieldBuffer = replicate 6291456 0\<rparr>;
        M = \<lparr>connectionToSession = [(1, ''a'')], sessions = [(''a'', S)],
             sessionToConnection = [(''a'', 1)]\<rparr>
    in createSession 1 ''a'' 0 (GpuReady zero_memory) SessionManager_ctor = Inr (''a'', M)
       \<and> map_of (sessions M) ''a'' = Some S
       \<and> length (fst (Session_getFrameData [] (Session_update 5 S))) = 50331648)"
proof -
  let ?S = "\<lparr>sessionId = ''a'', simulation = Some \<lparr>width = 128, height = 128, depth = 128, time_steps = 0,
               electricField_d = zero_memory 0, electricFieldNext_d = zero_memory 1,
               magneticField_d = zero_memory 2, magneticFieldNext_d = zero_memory 3,
               sourceField_d = zero_memory 4, sourceFieldNext_d = zero_memory 5\<rparr>,
             hasNewFrame = False, needsUpdate = True, lastActivity = 0,
             electricFieldBuffer = replicate 6291456 0,
             magneticFieldBuffer = replicate 6291456 0\<rparr>"
  let ?M = "\<lparr>connectionToSession = [(1, ''a'')], sessions = [(''a'', ?S)],
             sessionToConnection = [(''a'', 1)]\<rparr>"
  have h1: "createSession 1 ''a'' 0 (GpuReady zero_memory) SessionManager_ctor = Inr (''a'', ?M)"
    by (simp add: createSession_ready SessionManager_ctor_def)
  have h2: "map_of (sessions ?M) ''a'' = Some ?S"
    by simp
  have c: "length (fst (Session_getFrameData [] (Session_update 5 ?S))) = 50331648"
    using default_grid_frame [OF h1 h2, where now = 5 and buffer = "[]"]
    by (simp split: option.splits)
  show ?thesis
    unfolding Let_def by (intro conjI) (use h1 h2 c in \<open>simp_all only: simp_thms\<close>)
qed

text \<open>
  Claim C8, as amended. No operation on a session sets \<open>needsUpdate\<close> again: after
  any sequence of \<open>handleInput\<close>, \<open>getFrameData\<close>, \<open>markFrameSent\<close>, \<open>step\<close>, \<open>update\<close>
  and control handling the flag is set exactly when it was set before and the sequence
  holds no \<open>update\<close>. An \<open>update\<close> on a session whose flag is clear changes nothing. So
  a session initialised as the registry initialises it, and stepped through \<open>update\<close>
  only, has performed one solver step once \<open>update\<close> has been called and none before,
  however many \<open>update\<close> calls follow; a session without solver never performs one.
\<close>

theorem needsUpdate_never_set_again:
  "needsUpdate (run_session_ops ops s) = (needsUpdate s \<and> \<not> list_ex is_update ops)
   \<and> (\<not> needsUpdate s \<longrightarrow> Session_update now s = s)
   \<and> (Session_initialize w h d (GpuReady mem) (Session_ctor sid t0) = Inr s0
        \<and> \<not> list_ex is_step ops' \<longrightarrow>
      map_option time_steps (simulation (run_session_ops ops' s0))
        = Some (if list_ex is_update ops' then 1 else 0))
   \<and> (simulation s = None \<longrightarrow> simulation (run_session_ops ops s) = None)"
proof (intro conjI impI)
  show "needsUpdate (run_session_ops ops s) = (needsUpdate s \<and> \<not> list_ex is_update ops)"
    by (rule run_session_ops_needsUpdate)
next
  assume "\<not> needsUpdate s"
  then show "Session_update now s = s" by (rule update_idle)
next
  assume a: "Session_initialize w h d (GpuReady mem) (Session_ctor sid t0) = Inr s0
        \<and> \<not> list_ex is_step ops'"
  then obtain sim where s0: "simulation s0 = Some sim" "time_steps sim = 0" "needsUpdate s0"
    by (auto simp add: Session_initialize_def FDTD3D_initialize_def FDTD3D_ctor_def
          gpu_memory_def Session_ctor_def Let_def split: if_splits)
  from a have ns: "\<not> list_ex is_step ops'" by simp
  show "map_option time_steps (simulation (run_session_ops ops' s0))
        = Some (if list_ex is_update ops' then 1 else 0)"
    using run_session_ops_steps [OF s0(1) ns] s0 by simp
next
  assume "simulation s = None"
  then show "simulation (run_session_ops ops s) = None" by (rule run_session_ops_no_solver)
qed

text \<open>The theorem at a session with a 1 x 1 x 1 grid and a sequence with three updates.\<close>

theorem needsUpdate_never_set_again_witness:
  "(let S0 = \<lparr>sessionId = ''a'', simulation = Some \<lparr>width = 1, height = 1, depth = 1, time_steps = 0,
               electricField_d = zero_memory 0, electricFieldNext_d = zero_memory 1,
               magneticField_d = zero_memory 2, magneticFieldNext_d = zero_memory 3,
               sourceField_d = zero_memory 4, sourceFieldNext_d = zero_memory 5\<rparr>,
             hasNewFrame = False, needsUpdate = True, lastActivity = 0,
             electricFieldBuffer = replicate 3 0, magneticFieldBuffer = replicate 3 0\<rparr>;
        ops = [OpHandleInput 0 0 0 0 1, OpUpdate 2, OpGetFrameData, OpMarkFrameSent, OpUpdate 3,
               OpControl \<lparr>ctl_type = PAUSE, ctl_parameter = 0\<rparr>, OpUpdate 4]
    in Session_initialize 1 1 1 (GpuReady zero_memory) (Session_ctor ''a'' 0) = Inr S0
       \<and> \<not> list_ex is_step ops
       \<and> map_option time_steps (simulation (run_session_ops ops S0)) = Some 1
       \<and> \<not> needsUpdate (run_session_ops ops S0)
       \<and> Session_update 9 (run_session_ops ops S0) = run_session_ops ops S0
       \<and> simulation (Session_ctor ''a'' 0) = None
       \<and> simulation (run_session_ops ops (Session_ctor ''a'' 0)) = None)"
proof -
  let ?S0 = "\<lparr>sessionId = ''a'', simulation = Some \<lparr>width = 1, height = 1, depth = 1, time_steps = 0,
               electricField_d = zero_memory 0, electricFieldNext_d = zero_memory 1,
               magneticField_d = zero_memory 2, magneticFieldNext_d = zero_memory 3,
               sourceField_d = zero_memory 4, sourceFieldNext_d = zero_memory 5\<rparr>,
             hasNewFrame = False, needsUpdate = True, lastActivity = 0,
             electricFieldBuffer = replicate 3 0, magneticFieldBuffer = replicate 3 0\<rparr>"
  let ?ops = "[OpHandleInput 0 0 0 0 1, OpUpdate 2, OpGetFrameData, OpMarkFrameSent, OpUpdate 3,
               OpControl \<lparr>ctl_type = PAUSE, ctl_parameter = 0\<rparr>, OpUpdate 4]"
  have h1: "Session_initialize 1 1 1 (GpuReady zero_memory) (Session_ctor ''a'' 0) = Inr ?S0"
    by (simp add: Session_initialize_def FDTD3D_initialize_def FDTD3D_ctor_def gpu_memory_def
          Session_ctor_def resize_def texture_size_unit Let_def)
  have h2: "\<not> list_ex is_step ?ops" by simp
  have h3: "simulation (Session_ctor ''a'' 0) = None" by (simp add: Session_ctor_def)
  have n: "\<not> needsUpdate (run_session_ops ?ops ?S0)"
    using needsUpdate_never_set_again [THEN conjunct1, of ?ops ?S0] by simp
  have c: "map_option time_steps (simulation (run_session_ops ?ops ?S0))
      = Some (if list_ex is_update ?ops then 1 else 0)"
    by (rule needsUpdate_never_set_again [THEN conjunct2, THEN conjunct2, THEN conjunct1,
          THEN mp, OF conjI [OF h1 h2]])
  have c': "map_option time_steps (simulation (run_session_ops ?ops ?S0)) = Some 1"
    using c by simp
  have u: "Session_update 9 (run_session_ops ?ops ?S0) = run_session_ops ?ops ?S0"
    by (rule needsUpdate_never_set_again [THEN conjunct2, THEN conjunct1, THEN mp, OF n])
  have v: "simulation (run_session_ops ?ops (Session_ctor ''a'' 0)) = None"
    by (rule needsUpdate_never_set_again [THEN conjunct2, THEN conjunct2, THEN conjunct2,
          THEN mp, OF h3])
  show ?thesis
    unfolding Let_def by (intro conjI) (use h1 h2 h3 c' n u v in \<open>simp_all only: simp_thms\<close>)
qed

text \<open>
  The claim as stated fails in "exactly one step over its entire lifetime": a session
  without solver has none after any number of updates, a session not yet updated has
  performed none, and two direct calls of \<open>step\<close> perform two and leave \<open>needsUpdate\<close>
  set.
\<close>

theorem solver_steps_not_exactly_one:
  "simulation (run_session_ops [OpUpdate 1, OpUpdate 2] (Session_ctor ''a'' 0)) = None
   \<and> map_option time_steps (simulation (run_session_ops [OpHandleInput 0 0 0 0 1, OpGetFrameData]
        ((Session_ctor ''a'' 0)\<lparr>simulation := Some \<lparr>width = 1, height = 1, depth = 1, time_steps = 0,
               electricField_d = zero_memory 0, electricFieldNext_d = zero_memory 1,
               magneticField_d = zero_memory 2, magneticFieldNext_d = zero_memory 3,
               sourceField_d = zero_memory 4, sourceFieldNext_d = zero_memory 5\<rparr>\<rparr>))) = Some 0
   \<and> map_option time_steps (simulation (run_session_ops [OpStep 1, OpStep 2]
        ((Session_ctor ''a'' 0)\<lparr>simulation := Some \<lparr>width = 1, height = 1, depth = 1, time_steps = 0,
               electricField_d = zero_memory 0, electricFieldNext_d = zero_memory 1,
               magneticField_d = zero_memory 2, magneticFieldNext_d = zero_memory 3,
               sourceField_d = zero_memory 4, sourceFieldNext_d = zero_memory 5\<rparr>\<rparr>))) = Some 2
   \<and> needsUpdate (run_session_ops [OpStep 1, OpStep 2]
        ((Session_ctor ''a'' 0)\<lparr>simulation := Some \<lparr>width = 1, height = 1, depth = 1, time_steps = 0,
               electricField_d = zero_memory 0, electricFieldNext_d = zero_memory 1,
               magneticField_d = zero_memory 2, magneticFieldNext_d = zero_memory 3,
               sourceField_d = zero_memory 4, sourceFieldNext_d = zero_memory 5\<rparr>\<rparr>))"
  by (simp add: Session_ctor_def Session_update_def Session_step_def Session_handleInput_def
      Session_getFrameData_def FDTD3D_step_def FDTD3D_addSource_def swapBuffers_def)

text \<open>
  Claim C9. For every session id and every control message, \<open>handleControl\<close> returns
  the registry it was given: the three maps and every session in them are unchanged.
\<close>

theorem handleControl_no_effect:
  "handleControl sid control m = m \<and> exec_op (Control sid control) m = Inr m"
  by (simp add: handleControl_def split: option.split)

section \<open>Properties of the compression stage\<close>

text \<open>
  Claim C10. \<open>compress\<close> and \<open>decompress\<close> each return a copy of their input, of the
  same length, so \<open>decompress (compress d) = d\<close> for every byte array \<open>d\<close>.
\<close>

theorem compression_identity:
  "compress d = d \<and> decompress d = d \<and> length (compress d) = length d
   \<and> length (decompress d) = length d \<and> decompress (compress d) = d"
  by (simp add: compress_def decompress_def memcpy_at_def)

section \<open>Properties of the registry\<close>



subsection \<open>Destruction of a session that holds a solver\<close>








subsection \<open>Each operation that returns keeps the maps consistent\<close>








subsection \<open>Claims about the registry\<close>




text \<open>
  Claim C6, at the input where the code departs from it. A session is created at
  clock reading 0 and stepped by a tick at 5 ns; its connection stays open. At the tick
  of 1800000000006 ns its \<open>lastActivity\<close> is more than 30 minutes old and \<open>isExpired\<close>
  is true, as the claim says. The sweep then reaches \<open>sessions_.erase(it++)\<close>, which
  destroys the session: \<open>~Session\<close> and \<open>~FDTD3D\<close> free the solver's buffers twice,
  before \<open>sessionToConnection_\<close> and \<open>connectionToSession_\<close> are touched. The tick
  ends in that fault instead of a registry without the session.
\<close>

theorem expired_sweep_frees_twice:
  "(let S = \<lparr>sessionId = ''a'', simulation = Some \<lparr>width = 128, height = 128, depth = 128, time_steps = 1,
               electricField_d = zero_memory 1, electricFieldNext_d = zero_memory 0,
               magneticField_d = zero_memory 3, magneticFieldNext_d = zero_memory 2,
               sourceField_d = zero_memory 5, sourceFieldNext_d = zero_memory 4\<rparr>,
             hasNewFrame = True, needsUpdate = False, lastActivity = 5,
             electricFieldBuffer = replicate 6291456 0,
             magneticFieldBuffer = replicate 6291456 0\<rparr>;
        M = \<lparr>connectionToSession = [(1, ''a'')], sessions = [(''a'', S)],
             sessionToConnection = [(''a'', 1)]\<rparr>
    in run_ops [Create 1 ''a'' 0 (GpuReady zero_memory), Tick 5] SessionManager_ctor = Inr M
       \<and> Session_update 1800000000006 S = S
       \<and> Session_isExpired 1800000000006 S
       \<and> updateAll 1800000000006 M = Inl InvalidFree
       \<and> run_ops [Create 1 ''a'' 0 (GpuReady zero_memory), Tick 5, Tick 1800000000006]
            SessionManager_ctor = Inl InvalidFree)"
  by (simp add: createSession_ready SessionManager_ctor_def and_then_def updateAll_def
        cleanupExpiredSessions_def erase_session_def Session_dtor_def Session_update_def
        Session_step_def FDTD3D_step_def swapBuffers_def Session_isExpired_def
        SESSION_TIMEOUT_def Let_def)

end
